theory Spec2Isabelle
  imports Complex_Main "HOL-Library.Log_Nat"
begin

unbundle bit_operations_syntax

section \<open>JavaScript numbers\<close>

text \<open>
  The service computes amounts with JavaScript \<open>number\<close>s, that is IEEE 754 binary64
  values. A finite double is a rational, so a \<open>number\<close> is modelled as a \<open>rat\<close> and every
  arithmetic operation computes the exact result and rounds it to the nearest double,
  ties to even (\<open>toDouble\<close>): 53 significant bits for normal values, a fixed grid of
  \<open>2 powi -1074\<close> for subnormal ones. Infinities and NaN are not represented: results of
  magnitude \<open>2 powi 1024\<close> or more are outside the model.
\<close>

type_synonym number = rat

definition ilog2 :: "rat \<Rightarrow> int" where
  \<comment> \<open>for \<open>0 < x\<close>: the exponent \<open>e\<close> with \<open>2 powi e \<le> x < 2 powi (e + 1)\<close>\<close>
  "ilog2 x = (let (p, q) = quotient_of x;
                  d = int (floorlog 2 (nat p)) - int (floorlog 2 (nat q))
              in if 2 powi d \<le> x then d else d - 1)"

definition roundHalfEven :: "rat \<Rightarrow> int" where
  "roundHalfEven x = (let f = \<lfloor>x\<rfloor>; r = x - of_int f
     in if r < 1 / 2 then f else if 1 / 2 < r then f + 1 else if even f then f else f + 1)"

definition ulp :: "rat \<Rightarrow> rat" where
  \<comment> \<open>spacing of the doubles around \<open>x\<close>, for \<open>x \<noteq> 0\<close>\<close>
  "ulp x = 2 powi (max (ilog2 \<bar>x\<bar> - 52) (- 1074))"

definition toDouble :: "rat \<Rightarrow> number" where
  "toDouble x = (if x = 0 then 0
     else sgn x * of_int (roundHalfEven (\<bar>x\<bar> / ulp x)) * ulp x)"

definition js_add :: "number \<Rightarrow> number \<Rightarrow> number" where
  "js_add a b = toDouble (a + b)"

definition js_sub :: "number \<Rightarrow> number \<Rightarrow> number" where
  "js_sub a b = toDouble (a - b)"

definition js_mul :: "number \<Rightarrow> number \<Rightarrow> number" where
  "js_mul a b = toDouble (a * b)"

definition js_div :: "number \<Rightarrow> number \<Rightarrow> number" where
  \<comment> \<open>the divisors of the service are the non-zero constants 100 and powers of ten\<close>
  "js_div a b = toDouble (a / b)"

definition Math_floor :: "number \<Rightarrow> number" where
  "Math_floor x = of_int \<lfloor>x\<rfloor>"

definition Math_pow10 :: "nat \<Rightarrow> number" where
  \<comment> \<open>\<open>Math.pow(10, d)\<close> for the decimals of the token table\<close>
  "Math_pow10 d = toDouble (10 ^ d)"

definition Number_of_bigint :: "int \<Rightarrow> number" where
  \<comment> \<open>\<open>Number(b)\<close> for a bigint \<open>b\<close>\<close>
  "Number_of_bigint b = toDouble (of_int b)"

definition BigInt :: "number \<Rightarrow> int option" where
  \<comment> \<open>\<open>BigInt(x)\<close> throws a RangeError unless \<open>x\<close> is an integer\<close>
  "BigInt x = (if of_int \<lfloor>x\<rfloor> = x then Some \<lfloor>x\<rfloor> else None)"

definition orElse :: "number option \<Rightarrow> number \<Rightarrow> number" where
  \<comment> \<open>\<open>a || b\<close> on a number that may be undefined: undefined and 0 are falsy\<close>
  "orElse a b = (case a of None \<Rightarrow> b | Some x \<Rightarrow> if x = 0 then b else x)"

section \<open>Configuration: config.ts\<close>

definition TOKEN_DECIMALS :: "string \<rightharpoonup> nat" where
  "TOKEN_DECIMALS = [''SOL'' \<mapsto> 9, ''USD1'' \<mapsto> 6, ''RADR'' \<mapsto> 9]"

definition TOKEN_MINIMUMS :: "string \<rightharpoonup> number" where
  "TOKEN_MINIMUMS = [''SOL'' \<mapsto> 110000000, ''USD1'' \<mapsto> 5500000,
                     ''RADR'' \<mapsto> 11000000000000]"

definition SUPPORTED_TOKENS :: "string list" where
  "SUPPORTED_TOKENS = [''SOL'', ''USD1'', ''RADR'']"

text \<open>
  The process environment of the service: the loaded configuration, the keyed hash
  \<open>createHmac('sha256', WALLET_PEPPER)\<close> of the crypto library (hex digest), the treasury
  wallet read from the transfer client at initialisation, and the extraction of a
  transaction signature from a payment proof (\<open>JSON.parse\<close> and the field lookups of
  \<open>lockStakeWithProof\<close>; \<open>None\<close> when the value found is not a string, on which
  \<open>.slice\<close> throws a TypeError).
\<close>

record Env =
  hmacSha256Hex :: "string \<Rightarrow> string"
  HOUSE_FEE_PERCENT :: number
  escrowTimeoutMs :: int
  treasuryWallet :: string
  extractTx :: "string \<Rightarrow> string option"

section \<open>Types: types/index.ts\<close>

datatype DuelStatus = PENDING_STAKES | ACTIVE | PENDING_SETTLEMENT | SETTLED | REFUNDED | FAILED

record DuelParticipant =
  stealthId :: string
  characterId :: string
  characterName :: string
  stakeAmount :: int
  stakeLocked :: bool
  lockTxSignature :: "string option"
  lockTimestamp :: "int option"

record DuelRules =
  allowPotions :: bool
  allowPrayer :: bool
  allowMovement :: bool
  noMagic :: bool
  noMelee :: bool
  noRanged :: bool

record PartialDuelRules =
  allowPotions_opt :: "bool option"
  allowPrayer_opt :: "bool option"
  allowMovement_opt :: "bool option"
  noMagic_opt :: "bool option"
  noMelee_opt :: "bool option"
  noRanged_opt :: "bool option"

record CombatSummary =
  totalTicks :: int
  player1DamageDealt :: int
  player2DamageDealt :: int
  winReason :: string

record DuelSession =
  duelId :: string
  status :: DuelStatus
  player1 :: DuelParticipant
  player2 :: DuelParticipant
  token :: string
  houseFeePercent :: number
  rules :: DuelRules
  createdAt :: int
  updatedAt :: int
  expiresAt :: int
  winnerStealthId :: "string option"
  settlementTxSignatures :: "string option list option"
  combatSummary :: "CombatSummary option"

record TransferResult =
  success :: bool
  txSignature :: "string option"
  error :: "string option"

datatype Failure =
    StakeTooLow number string
  | DuelNotFound
  | InvalidDuelStatus DuelStatus
  | DuelHasExpired
  | PlayerNotPartOfDuel
  | StakeAlreadyLocked
  | WinnerNotPartOfDuel
  | FailedToPayWinner nat string
  | DuelAlready DuelStatus
  | DustBelowMinimum number
  | SweepFailed number "string option"
  | Thrown string

section \<open>State of the service\<close>

text \<open>
  \<open>MemoryStore\<close> keeps the duel records with their expiry, the dust counters and the two
  recovery sets; \<open>StealthMappingService\<close> keeps the session map from stealth id to
  wallet. Both are process-wide singletons, so one record holds them. \<open>transferCalls\<close>
  is the history of the calls made to \<open>transferFromEscrow\<close> (recipient, amount, token),
  oldest first.
\<close>

record StoredItem =
  data :: DuelSession
  storeExpiresAt :: "int option"

record World =
  duels :: "string \<rightharpoonup> StoredItem"
  dust :: "string \<rightharpoonup> number"
  pendingRecovery :: "string set"
  failedRecovery :: "string set"
  duelsCreated :: nat
  duelsExpired :: nat
  sessionMap :: "string \<rightharpoonup> string"
  transferCalls :: "(string \<times> number \<times> string) list"

definition emptyWorld :: World where
  "emptyWorld = \<lparr>duels = Map.empty, dust = Map.empty, pendingRecovery = {},
     failedRecovery = {}, duelsCreated = 0, duelsExpired = 0, sessionMap = Map.empty,
     transferCalls = []\<rparr>"

section \<open>In-memory store: memory-store.ts\<close>

text \<open>
  Every reading of \<open>Date.now()\<close> is an argument: an operation takes the clock as a
  function \<open>clk\<close>, and \<open>clk i\<close> is the value of the \<open>i\<close>-th reading the operation
  makes, in program order.
\<close>

definition expired :: "int \<Rightarrow> StoredItem \<Rightarrow> bool" where
  "expired now item = (case storeExpiresAt item of None \<Rightarrow> False | Some t \<Rightarrow> t \<le> now)"


definition setDuel :: "int \<Rightarrow> string \<Rightarrow> DuelSession \<Rightarrow> int \<Rightarrow> World \<Rightarrow> World" where
  "setDuel now did duel ttlMs w = w\<lparr>
     duels := (duels w)(did \<mapsto> \<lparr>data = duel, storeExpiresAt = Some (now + ttlMs)\<rparr>),
     duelsCreated := duelsCreated w + 1\<rparr>"

definition getDuel :: "int \<Rightarrow> string \<Rightarrow> World \<Rightarrow> DuelSession option \<times> World" where
  "getDuel now did w = (case duels w did of
       None \<Rightarrow> (None, w)
     | Some item \<Rightarrow>
         if expired now item
         then (None, w\<lparr>duels := (duels w)(did := None), duelsExpired := duelsExpired w + 1\<rparr>)
         else (Some (data item), w))"

definition accumulateDust :: "string \<Rightarrow> number \<Rightarrow> World \<Rightarrow> World" where
  "accumulateDust tok amount w =
     w\<lparr>dust := (dust w)(tok \<mapsto> js_add (orElse (dust w tok) 0) amount)\<rparr>"

definition getDust :: "string \<Rightarrow> World \<Rightarrow> number" where
  "getDust tok w = orElse (dust w tok) 0"

definition resetDust :: "string \<Rightarrow> World \<Rightarrow> World" where
  "resetDust tok w = w\<lparr>dust := (dust w)(tok \<mapsto> 0)\<rparr>"

definition addPendingRecovery :: "string \<Rightarrow> World \<Rightarrow> World" where
  "addPendingRecovery did w = w\<lparr>pendingRecovery := insert did (pendingRecovery w)\<rparr>"

definition removePendingRecovery :: "string \<Rightarrow> World \<Rightarrow> World" where
  "removePendingRecovery did w = w\<lparr>pendingRecovery := pendingRecovery w - {did}\<rparr>"

definition getPendingRecovery :: "World \<Rightarrow> string set" where
  "getPendingRecovery w = pendingRecovery w"

definition addFailedRecovery :: "string \<Rightarrow> World \<Rightarrow> World" where
  "addFailedRecovery did w = w\<lparr>failedRecovery := insert did (failedRecovery w)\<rparr>"

definition removeFailedRecovery :: "string \<Rightarrow> World \<Rightarrow> World" where
  "removeFailedRecovery did w = w\<lparr>failedRecovery := failedRecovery w - {did}\<rparr>"

definition getFailedRecovery :: "World \<Rightarrow> string set" where
  "getFailedRecovery w = failedRecovery w"

section \<open>Stealth identities: stealth.ts\<close>

definition isSpace :: "char \<Rightarrow> bool" where
  "isSpace c = (c = CHR '' '' \<or> c = CHR 0x09 \<or> c = CHR 0x0A \<or> c = CHR 0x0B
                \<or> c = CHR 0x0C \<or> c = CHR 0x0D)"

definition trim :: "string \<Rightarrow> string" where
  "trim s = rev (dropWhile isSpace (rev (dropWhile isSpace s)))"

definition generateStealthId :: "Env \<Rightarrow> string \<Rightarrow> string" where
  "generateStealthId env wallet = hmacSha256Hex env (trim wallet)"

definition timingSafeEqual :: "string \<Rightarrow> string \<Rightarrow> bool" where
  "timingSafeEqual a b = (if length a \<noteq> length b then False
     else fold (\<lambda>(x, y) result. result OR ((of_char x :: nat) XOR of_char y)) (zip a b) 0 = 0)"

definition verifyStealthId :: "Env \<Rightarrow> string \<Rightarrow> string \<Rightarrow> bool" where
  "verifyStealthId env wallet sid = timingSafeEqual (generateStealthId env wallet) sid"

definition register :: "Env \<Rightarrow> string \<Rightarrow> World \<Rightarrow> string \<times> World" where
  "register env wallet w = (let sid = generateStealthId env wallet
     in (sid, w\<lparr>sessionMap := (sessionMap w)(sid \<mapsto> wallet)\<rparr>))"

definition resolve :: "string \<Rightarrow> World \<Rightarrow> string option" where
  "resolve sid w = sessionMap w sid"

definition unregister :: "string \<Rightarrow> World \<Rightarrow> World" where
  "unregister sid w = w\<lparr>sessionMap := (sessionMap w)(sid := None)\<rparr>"

section \<open>Transfer client: shadowwire-direct.ts\<close>

text \<open>
  The ZK transfer backend is outside the service. \<open>backend k\<close> is the result that the
  \<open>k\<close>-th call of \<open>transferFromEscrow\<close> since start-up gets (the function catches every
  exception and returns a result record); the call is appended to the history.
\<close>

definition transferFromEscrow ::
  "(nat \<Rightarrow> TransferResult) \<Rightarrow> string \<Rightarrow> number \<Rightarrow> string \<Rightarrow> World \<Rightarrow> TransferResult \<times> World" where
  "transferFromEscrow backend recipientWallet amountLamports tok w =
     (backend (length (transferCalls w)),
      w\<lparr>transferCalls := transferCalls w @ [(recipientWallet, amountLamports, tok)]\<rparr>)"

definition transferToTreasury ::
  "Env \<Rightarrow> (nat \<Rightarrow> TransferResult) \<Rightarrow> number \<Rightarrow> string \<Rightarrow> World \<Rightarrow> TransferResult \<times> World" where
  "transferToTreasury env backend amountLamports tok w =
     transferFromEscrow backend (treasuryWallet env) amountLamports tok w"

section \<open>Escrow engine: duel-escrow.ts\<close>

text \<open>
  The operations are modelled after \<open>initialize()\<close> has run; each runs to completion
  before the next one starts. A failure is either an error result of the operation or,
  for \<open>Thrown\<close>, an exception that leaves it.
\<close>

definition DEFAULT_RULES :: DuelRules where
  "DEFAULT_RULES = \<lparr>allowPotions = False, allowPrayer = False, allowMovement = True,
     noMagic = False, noMelee = False, noRanged = False\<rparr>"

definition mergeRules :: "DuelRules \<Rightarrow> PartialDuelRules \<Rightarrow> DuelRules" where
  \<comment> \<open>\<open>{ ...DEFAULT_RULES, ...rules }\<close>\<close>
  "mergeRules d r = \<lparr>
     allowPotions = (case allowPotions_opt r of None \<Rightarrow> allowPotions d | Some b \<Rightarrow> b),
     allowPrayer = (case allowPrayer_opt r of None \<Rightarrow> allowPrayer d | Some b \<Rightarrow> b),
     allowMovement = (case allowMovement_opt r of None \<Rightarrow> allowMovement d | Some b \<Rightarrow> b),
     noMagic = (case noMagic_opt r of None \<Rightarrow> noMagic d | Some b \<Rightarrow> b),
     noMelee = (case noMelee_opt r of None \<Rightarrow> noMelee d | Some b \<Rightarrow> b),
     noRanged = (case noRanged_opt r of None \<Rightarrow> noRanged d | Some b \<Rightarrow> b)\<rparr>"

record CreateDuelParams =
  player1Wallet :: string
  player2Wallet :: string
  player1CharacterId :: string
  player2CharacterId :: string
  player1Name :: string
  player2Name :: string
  stakeAmountSol :: number
  token_opt :: "string option"
  rules_opt :: "PartialDuelRules option"

text \<open>\<open>newId\<close> is the value of \<open>generateDuelId()\<close>: 16 random bytes in hexadecimal.\<close>

definition createDuel ::
  "Env \<Rightarrow> (nat \<Rightarrow> int) \<Rightarrow> string \<Rightarrow> CreateDuelParams \<Rightarrow> World \<Rightarrow> (Failure + DuelSession) \<times> World" where
  "createDuel env clk newId params w =
    (let tok = (case token_opt params of None \<Rightarrow> ''SOL'' | Some t \<Rightarrow> t);
         decimals = (case TOKEN_DECIMALS tok of None \<Rightarrow> 9 | Some d \<Rightarrow> if d = 0 then 9 else d);
         minAmount = orElse (TOKEN_MINIMUMS tok) 100000000;
         stakeAmountSmallestUnit = Math_floor (js_mul (stakeAmountSol params) (Math_pow10 decimals))
     in if stakeAmountSmallestUnit < minAmount
        then (Inl (StakeTooLow (js_div minAmount (Math_pow10 decimals)) tok), w)
        else
          let (player1StealthId, w1) = register env (player1Wallet params) w;
              (player2StealthId, w2) = register env (player2Wallet params) w1;
              now = clk 0;
              expiresAt' = now + escrowTimeoutMs env
          in case BigInt stakeAmountSmallestUnit of
               None \<Rightarrow> (Inl (Thrown ''RangeError''), w2)
             | Some stake \<Rightarrow>
                 let duel = \<lparr>duelId = newId, status = PENDING_STAKES,
                       player1 = \<lparr>stealthId = player1StealthId,
                          characterId = player1CharacterId params,
                          characterName = player1Name params, stakeAmount = stake,
                          stakeLocked = False, lockTxSignature = None, lockTimestamp = None\<rparr>,
                       player2 = \<lparr>stealthId = player2StealthId,
                          characterId = player2CharacterId params,
                          characterName = player2Name params, stakeAmount = stake,
                          stakeLocked = False, lockTxSignature = None, lockTimestamp = None\<rparr>,
                       token = tok, houseFeePercent = HOUSE_FEE_PERCENT env,
                       rules = mergeRules DEFAULT_RULES
                          (case rules_opt params of
                             None \<Rightarrow> \<lparr>allowPotions_opt = None, allowPrayer_opt = None,
                                allowMovement_opt = None, noMagic_opt = None,
                                noMelee_opt = None, noRanged_opt = None\<rparr>
                           | Some r \<Rightarrow> r),
                       createdAt = now, updatedAt = now, expiresAt = expiresAt',
                       winnerStealthId = None, settlementTxSignatures = None,
                       combatSummary = None\<rparr>
                 in (Inr duel, setDuel (clk 1) newId duel (escrowTimeoutMs env) w2))"

datatype PlayerNumber = P1 | P2

definition recordLock :: "string \<Rightarrow> int \<Rightarrow> DuelParticipant \<Rightarrow> DuelParticipant" where
  "recordLock txSig now player =
     player\<lparr>stakeLocked := True, lockTxSignature := Some txSig, lockTimestamp := Some now\<rparr>"

text \<open>The successful result of \<open>lockStakeWithProof\<close> is \<open>(txSignature, bothLocked)\<close>.\<close>

definition lockStakeWithProof ::
  "Env \<Rightarrow> (nat \<Rightarrow> int) \<Rightarrow> string \<Rightarrow> string \<Rightarrow> string \<Rightarrow> World
     \<Rightarrow> (Failure + string \<times> bool) \<times> World" where
  "lockStakeWithProof env clk did playerWallet paymentProof w =
    (case getDuel (clk 0) did w of
       (None, w0) \<Rightarrow> (Inl DuelNotFound, w0)
     | (Some duel, w0) \<Rightarrow>
        if status duel \<noteq> PENDING_STAKES then (Inl (InvalidDuelStatus (status duel)), w0)
        else if clk 1 > expiresAt duel then (Inl DuelHasExpired, w0)
        else
          (case (if verifyStealthId env playerWallet (stealthId (player1 duel)) then Some P1
                 else if verifyStealthId env playerWallet (stealthId (player2 duel)) then Some P2
                 else None) of
             None \<Rightarrow> (Inl PlayerNotPartOfDuel, w0)
           | Some playerNumber \<Rightarrow>
              let player = (case playerNumber of P1 \<Rightarrow> player1 duel | P2 \<Rightarrow> player2 duel)
              in if stakeLocked player then (Inl StakeAlreadyLocked, w0)
                 else
                   (case extractTx env paymentProof of
                      None \<Rightarrow> (Inl (Thrown ''TypeError''), w0)
                    | Some txSig \<Rightarrow>
                       let now = clk 2;
                           duel1 = (case playerNumber of
                                P1 \<Rightarrow> duel\<lparr>player1 := recordLock txSig now (player1 duel)\<rparr>
                              | P2 \<Rightarrow> duel\<lparr>player2 := recordLock txSig now (player2 duel)\<rparr>);
                           duel2 = duel1\<lparr>updatedAt := now\<rparr>;
                           bothLocked = (stakeLocked (player1 duel2) \<and> stakeLocked (player2 duel2));
                           duel3 = (if bothLocked then duel2\<lparr>status := ACTIVE\<rparr> else duel2);
                           ttl = expiresAt duel3 - clk 3
                       in (Inr (txSig, bothLocked), setDuel (clk 4) did duel3 (max ttl 1000) w0))))"

subsection \<open>Settlement\<close>

definition SHADOWWIRE_FEE_PERCENT :: number where
  "SHADOWWIRE_FEE_PERCENT = 1 / 2"

definition depositFeeMultiplier :: number where
  "depositFeeMultiplier = js_sub 1 (js_div SHADOWWIRE_FEE_PERCENT 100)"

definition stakePerPlayer :: "DuelSession \<Rightarrow> number" where
  "stakePerPlayer duel = Number_of_bigint (stakeAmount (player1 duel))"

definition actualDepositPerPlayer :: "DuelSession \<Rightarrow> number" where
  "actualDepositPerPlayer duel = Math_floor (js_mul (stakePerPlayer duel) depositFeeMultiplier)"

definition actualTotalPot :: "DuelSession \<Rightarrow> number" where
  "actualTotalPot duel = js_mul (actualDepositPerPlayer duel) 2"

definition houseFee :: "DuelSession \<Rightarrow> number" where
  "houseFee duel = Math_floor (js_div (js_mul (actualTotalPot duel) (houseFeePercent duel)) 100)"

definition winnerPayout :: "DuelSession \<Rightarrow> number" where
  "winnerPayout duel = js_sub (actualTotalPot duel) (houseFee duel)"

definition MAX_RETRIES :: nat where
  "MAX_RETRIES = 3"

definition SETTLEMENT_TTL :: int where
  "SETTLEMENT_TTL = 24 * 60 * 60 * 1000"

definition truthy :: "string option \<Rightarrow> bool" where
  \<comment> \<open>a string that may be undefined, used as a condition: undefined and the empty string are falsy\<close>
  "truthy s = (case s of None \<Rightarrow> False | Some x \<Rightarrow> x \<noteq> [])"

text \<open>
  The retry loop of the winner payout, \<open>for (attempt = 1; attempt <= MAX_RETRIES; attempt++)\<close>,
  with the loop variables \<open>winnerResult\<close> and \<open>lastError\<close>. The delay between two attempts
  changes no state.
\<close>

function payoutLoop ::
  "(nat \<Rightarrow> TransferResult) \<Rightarrow> string \<Rightarrow> number \<Rightarrow> string \<Rightarrow> nat \<Rightarrow> TransferResult \<Rightarrow> string \<Rightarrow> World
     \<Rightarrow> TransferResult \<times> string \<times> World" where
  "payoutLoop backend winnerWallet amount tok attempt winnerResult lastError w =
     (if attempt \<le> MAX_RETRIES then
        (case transferFromEscrow backend winnerWallet amount tok w of
           (r, w1) \<Rightarrow>
             if success r then (r, lastError, w1)
             else payoutLoop backend winnerWallet amount tok (attempt + 1) r
                    (if truthy (error r) then the (error r) else ''Unknown error'') w1)
      else (winnerResult, lastError, w))"
  by pat_completeness auto
termination
  by (relation "measure (\<lambda>(backend, winnerWallet, amount, tok, attempt, winnerResult, lastError, w).
        Suc MAX_RETRIES - attempt)") auto

declare payoutLoop.simps [simp del]

text \<open>
  The result of \<open>accountabilityService.commitToSettlement\<close>, which is outside the engine;
  \<open>settleDuel\<close> takes \<open>Some\<close> result, or \<open>None\<close> when the call throws.
\<close>

record CommitResult =
  commitSuccess :: bool
  commitHash :: "string option"
  onChainTxSignature :: "string option"

record SettleOk =
  winnerTxSignature :: "string option"
  treasuryTxSignature :: "string option"
  winnerPayoutLamports :: int
  houseFeeLamports :: int
  commitmentHash :: "string option"
  commitmentTxSignature :: "string option"

definition payTreasury ::
  "Env \<Rightarrow> (nat \<Rightarrow> TransferResult) \<Rightarrow> DuelSession \<Rightarrow> World \<Rightarrow> string option \<times> World" where
  "payTreasury env backend duel w =
    (let minTransferForToken = orElse (TOKEN_MINIMUMS (token duel)) (the (TOKEN_MINIMUMS ''SOL''))
     in if houseFee duel \<ge> minTransferForToken \<and> treasuryWallet env \<noteq> [] then
          (case transferToTreasury env backend (houseFee duel) (token duel) w of
             (treasuryResult, w1) \<Rightarrow>
               if \<not> success treasuryResult
               then (None, accumulateDust (token duel) (houseFee duel) w1)
               else (txSignature treasuryResult, w1))
        else if houseFee duel > 0 then (None, accumulateDust (token duel) (houseFee duel) w)
        else (None, w))"

definition settleDuel ::
  "Env \<Rightarrow> (nat \<Rightarrow> int) \<Rightarrow> (nat \<Rightarrow> TransferResult) \<Rightarrow> CommitResult option \<Rightarrow> string \<Rightarrow> string
     \<Rightarrow> CombatSummary option \<Rightarrow> World \<Rightarrow> (Failure + SettleOk) \<times> World" where
  "settleDuel env clk backend commit did winnerWallet summary w =
    (case getDuel (clk 0) did w of
       (None, w0) \<Rightarrow> (Inl DuelNotFound, w0)
     | (Some duel, w0) \<Rightarrow>
        if status duel \<noteq> ACTIVE \<and> status duel \<noteq> PENDING_SETTLEMENT
        then (Inl (InvalidDuelStatus (status duel)), w0)
        else if \<not> verifyStealthId env winnerWallet (stealthId (player1 duel))
                \<and> \<not> verifyStealthId env winnerWallet (stealthId (player2 duel))
        then (Inl WinnerNotPartOfDuel, w0)
        else
          let winnerSid = generateStealthId env winnerWallet;
              committed = (case commit of None \<Rightarrow> False | Some c \<Rightarrow> commitSuccess c);
              cHash = (if committed then commitHash (the commit) else None);
              cTx = (if committed then onChainTxSignature (the commit) else None);
              duel1 = duel\<lparr>status := PENDING_SETTLEMENT, winnerStealthId := Some winnerSid,
                         updatedAt := clk 1\<rparr>;
              w1 = addPendingRecovery did (setDuel (clk 2) did duel1 SETTLEMENT_TTL w0)
          in case payoutLoop backend winnerWallet (winnerPayout duel) (token duel) 1
                    \<lparr>success = False, txSignature = None, error = None\<rparr> [] w1 of
               (winnerResult, lastError, w2) \<Rightarrow>
                 if \<not> success winnerResult then
                   let duel2 = duel1\<lparr>status := ACTIVE, updatedAt := clk 3\<rparr>
                   in (Inl (FailedToPayWinner MAX_RETRIES lastError),
                       addFailedRecovery did (setDuel (clk 4) did duel2 SETTLEMENT_TTL w2))
                 else
                   (case payTreasury env backend duel (removePendingRecovery did w2) of
                      (treasuryTx, w3) \<Rightarrow>
                        let duel3 = duel1\<lparr>status := SETTLED,
                               settlementTxSignatures := Some (txSignature winnerResult
                                  # (if truthy treasuryTx then [treasuryTx] else [])),
                               combatSummary := summary, updatedAt := clk 3\<rparr>;
                            w4 = setDuel (clk 4) did duel3 (24 * 60 * 60 * 1000) w3;
                            w5 = unregister (stealthId (player2 duel))
                                   (unregister (stealthId (player1 duel)) w4)
                        in (case (BigInt (winnerPayout duel), BigInt (houseFee duel)) of
                             (Some wp, Some hf) \<Rightarrow>
                               (Inr \<lparr>winnerTxSignature = txSignature winnerResult,
                                     treasuryTxSignature = treasuryTx,
                                     winnerPayoutLamports = wp, houseFeeLamports = hf,
                                     commitmentHash = cHash, commitmentTxSignature = cTx\<rparr>, w5)
                           | _ \<Rightarrow> (Inl (Thrown ''RangeError''), w5))))"

subsection \<open>Refund, recovery and dust\<close>

definition refundPlayer ::
  "(nat \<Rightarrow> TransferResult) \<Rightarrow> DuelParticipant \<Rightarrow> string \<Rightarrow> World \<Rightarrow> string list \<times> World" where
  "refundPlayer backend p tok w =
    (if stakeLocked p then
       (if truthy (resolve (stealthId p) w) then
          (case transferFromEscrow backend (the (resolve (stealthId p) w))
                  (Number_of_bigint (stakeAmount p)) tok w of
             (refund, w1) \<Rightarrow>
               (if success refund \<and> truthy (txSignature refund)
                then [the (txSignature refund)] else [], w1))
        else ([], w))
     else ([], w))"

definition refundDuel ::
  "(nat \<Rightarrow> int) \<Rightarrow> (nat \<Rightarrow> TransferResult) \<Rightarrow> string \<Rightarrow> World \<Rightarrow> (Failure + string list) \<times> World" where
  "refundDuel clk backend did w =
    (case getDuel (clk 0) did w of
       (None, w0) \<Rightarrow> (Inl DuelNotFound, w0)
     | (Some duel, w0) \<Rightarrow>
        if status duel = SETTLED \<or> status duel = REFUNDED
        then (Inl (DuelAlready (status duel)), w0)
        else
          (case refundPlayer backend (player1 duel) (token duel) w0 of
             (sigs1, w1) \<Rightarrow>
               (case refundPlayer backend (player2 duel) (token duel) w1 of
                  (sigs2, w2) \<Rightarrow>
                    let refundTxSignatures = sigs1 @ sigs2;
                        duel1 = duel\<lparr>status := REFUNDED,
                           settlementTxSignatures := Some (map Some refundTxSignatures),
                           updatedAt := clk 1\<rparr>;
                        w3 = setDuel (clk 2) did duel1 (24 * 60 * 60 * 1000) w2;
                        w4 = unregister (stealthId (player2 duel))
                               (unregister (stealthId (player1 duel)) w3)
                    in (Inr refundTxSignatures, w4))))"

definition getAccumulatedDust :: "string \<Rightarrow> World \<Rightarrow> number" where
  "getAccumulatedDust tok w = getDust tok w"

definition getFailedDuels :: "World \<Rightarrow> string set" where
  "getFailedDuels w = getFailedRecovery w"

definition getPendingSettlements :: "World \<Rightarrow> string set" where
  "getPendingSettlements w = getPendingRecovery w"

definition emergencyTransfer ::
  "(nat \<Rightarrow> TransferResult) \<Rightarrow> string \<Rightarrow> string \<Rightarrow> number \<Rightarrow> string \<Rightarrow> World
     \<Rightarrow> (string \<times> TransferResult) list \<times> World" where
  "emergencyTransfer backend label wallet amount tok w =
    (if wallet \<noteq> [] then
       (case transferFromEscrow backend wallet amount tok w of
          (result, w1) \<Rightarrow> ([(label, result)], w1))
     else ([], w))"

text \<open>The result of \<open>emergencyRefund\<close> is \<open>(success, refunds)\<close>.\<close>

definition emergencyRefund ::
  "(nat \<Rightarrow> int) \<Rightarrow> (nat \<Rightarrow> TransferResult) \<Rightarrow> string \<Rightarrow> string \<Rightarrow> string \<Rightarrow> number \<Rightarrow> string \<Rightarrow> World
     \<Rightarrow> (bool \<times> (string \<times> TransferResult) list) \<times> World" where
  "emergencyRefund clk backend did p1Wallet p2Wallet stakePerPlayerLamports tok w =
    (let actualPerPlayer = Math_floor (js_mul stakePerPlayerLamports depositFeeMultiplier)
     in case emergencyTransfer backend ''player1'' p1Wallet actualPerPlayer tok w of
          (r1, w1) \<Rightarrow>
            (case emergencyTransfer backend ''player2'' p2Wallet actualPerPlayer tok w1 of
               (r2, w2) \<Rightarrow>
                 let refunds = r1 @ r2;
                     allSuccess = list_all (\<lambda>r. success (snd r)) refunds
                 in if allSuccess then
                      (case getDuel (clk 0) did
                              (removePendingRecovery did (removeFailedRecovery did w2)) of
                         (None, w3) \<Rightarrow> ((allSuccess, refunds), w3)
                       | (Some duel, w3) \<Rightarrow>
                           ((allSuccess, refunds),
                            setDuel (clk 2) did (duel\<lparr>status := REFUNDED, updatedAt := clk 1\<rparr>)
                              (24 * 60 * 60 * 1000) w3))
                    else ((allSuccess, refunds), w2)))"

definition SHADOWWIRE_MIN_TRANSFER :: number where
  "SHADOWWIRE_MIN_TRANSFER = 100000000"

text \<open>The successful result of \<open>sweepDustToTreasury\<close> is \<open>(amount, txSignature)\<close>.\<close>

definition sweepDustToTreasury ::
  "Env \<Rightarrow> (nat \<Rightarrow> TransferResult) \<Rightarrow> string \<Rightarrow> World
     \<Rightarrow> (Failure + number \<times> string option) \<times> World" where
  "sweepDustToTreasury env backend tok w =
    (let dustAmount = getAccumulatedDust tok w
     in if dustAmount < SHADOWWIRE_MIN_TRANSFER then (Inl (DustBelowMinimum dustAmount), w)
        else
          (case transferToTreasury env backend dustAmount tok w of
             (result, w1) \<Rightarrow>
               if success result then (Inr (dustAmount, txSignature result), resetDust tok w1)
               else (Inl (SweepFailed dustAmount (error result)), w1)))"

section \<open>Example inputs\<close>

text \<open>
  Concrete inputs at which the theorems below are instantiated: a configuration with
  the default house fee and escrow timeout, and transfer backends that fail or succeed
  on every call.
\<close>

definition exampleEnv :: Env where
  "exampleEnv = \<lparr>hmacSha256Hex = (\<lambda>s. ''hmac:'' @ s), HOUSE_FEE_PERCENT = 2,
     escrowTimeoutMs = 1800000, treasuryWallet = ''TreasuryWallet111111111111111111'',
     extractTx = Some\<rparr>"

definition failingBackend :: "nat \<Rightarrow> TransferResult" where
  "failingBackend k = \<lparr>success = False, txSignature = None, error = Some ''network''\<rparr>"

definition okBackend :: "nat \<Rightarrow> TransferResult" where
  "okBackend k = \<lparr>success = True, txSignature = Some ''tx'', error = None\<rparr>"

definition dustyWorld :: "string \<Rightarrow> number \<Rightarrow> World" where
  "dustyWorld tok amount = emptyWorld\<lparr>dust := [tok \<mapsto> amount]\<rparr>"

definition aliceWallet :: string where
  "aliceWallet = ''Alice111111111111111111111111111''"

definition bobWallet :: string where
  "bobWallet = ''Bob11111111111111111111111111111''"

definition duelA :: string where
  "duelA = ''0123456789abcdef0123456789abcdef''"


definition stakedParams :: "number \<Rightarrow> CreateDuelParams" where
  "stakedParams amount = \<lparr>player1Wallet = aliceWallet, player2Wallet = bobWallet,
     player1CharacterId = ''c1'', player2CharacterId = ''c2'', player1Name = ''Alice'',
     player2Name = ''Bob'', stakeAmountSol = amount, token_opt = Some ''SOL'',
     rules_opt = None\<rparr>"

text \<open>
  The record of the example duel \<open>duelA\<close> between Alice and Bob, created at time 1000
  with a stake of \<open>S\<close> lamports each, by its status, its two lock flags and the time of
  its last update; Alice locks at time 2000 and Bob at time 3000.
\<close>

definition exampleDuel :: "int \<Rightarrow> DuelStatus \<Rightarrow> bool \<Rightarrow> bool \<Rightarrow> int \<Rightarrow> DuelSession" where
  "exampleDuel S st l1 l2 upd = \<lparr>duelId = duelA, status = st,
     player1 = \<lparr>stealthId = ''hmac:'' @ aliceWallet, characterId = ''c1'',
        characterName = ''Alice'', stakeAmount = S, stakeLocked = l1,
        lockTxSignature = (if l1 then Some ''tx_p1'' else None),
        lockTimestamp = (if l1 then Some 2000 else None)\<rparr>,
     player2 = \<lparr>stealthId = ''hmac:'' @ bobWallet, characterId = ''c2'',
        characterName = ''Bob'', stakeAmount = S, stakeLocked = l2,
        lockTxSignature = (if l2 then Some ''tx_p2'' else None),
        lockTimestamp = (if l2 then Some 3000 else None)\<rparr>,
     token = ''SOL'', houseFeePercent = 2, rules = DEFAULT_RULES,
     createdAt = 1000, updatedAt = upd, expiresAt = 1801000,
     winnerStealthId = None, settlementTxSignatures = None, combatSummary = None\<rparr>"

definition exampleWorld :: "DuelSession \<Rightarrow> int \<Rightarrow> nat \<Rightarrow> World" where
  \<comment> \<open>the store holds the example duel, both wallets are registered\<close>
  "exampleWorld d t n = emptyWorld\<lparr>
     duels := [duelA \<mapsto> \<lparr>data = d, storeExpiresAt = Some t\<rparr>], duelsCreated := n,
     sessionMap := [''hmac:'' @ aliceWallet \<mapsto> aliceWallet,
                    ''hmac:'' @ bobWallet \<mapsto> bobWallet]\<rparr>"

definition createdWorld :: "number \<Rightarrow> World" where
  "createdWorld amount =
     snd (createDuel exampleEnv (\<lambda>i. 1000) duelA (stakedParams amount) emptyWorld)"

definition p1LockedWorld :: "number \<Rightarrow> World" where
  "p1LockedWorld amount =
     snd (lockStakeWithProof exampleEnv (\<lambda>i. 2000) duelA aliceWallet ''tx_p1''
            (createdWorld amount))"

definition activeWorld :: "number \<Rightarrow> World" where
  "activeWorld amount =
     snd (lockStakeWithProof exampleEnv (\<lambda>i. 3000) duelA bobWallet ''tx_p2''
            (p1LockedWorld amount))"


section \<open>Reachable states\<close>


definition bothLocked :: "DuelSession \<Rightarrow> bool" where
  "bothLocked duel = (stakeLocked (player1 duel) \<and> stakeLocked (player2 duel))"

section \<open>Basic facts\<close>

lemma xor_nat_eq_0_iff: "(a::nat) XOR b = 0 \<longleftrightarrow> a = b"
  by (auto simp: bit_eq_iff bit_xor_iff)

lemma fold_or_zero:
  "fold (\<lambda>(x, y) result. result OR ((of_char x :: nat) XOR of_char y)) ps acc = 0
     \<longleftrightarrow> acc = 0 \<and> (\<forall>p \<in> set ps. fst p = snd p)"
proof (induction ps arbitrary: acc)
  case Nil
  then show ?case by simp
next
  case (Cons p ps)
  obtain x y where p: "p = (x, y)" by (cases p)
  show ?case using Cons.IH by (auto simp: p or_eq_0_iff xor_nat_eq_0_iff)
qed

lemma zip_all_eq:
  "length a = length b \<Longrightarrow> (\<forall>p \<in> set (zip a b). fst p = snd p) \<longleftrightarrow> a = b"
  by (induction a b rule: list_induct2) auto

lemma timingSafeEqual_iff: "timingSafeEqual a b \<longleftrightarrow> a = b"
proof (cases "length a = length b")
  case True
  then show ?thesis by (simp add: timingSafeEqual_def fold_or_zero zip_all_eq)
next
  case False
  then show ?thesis by (auto simp: timingSafeEqual_def)
qed

lemma verifyStealthId_iff:
  "verifyStealthId env wallet sid \<longleftrightarrow> generateStealthId env wallet = sid"
  by (simp add: verifyStealthId_def timingSafeEqual_iff)

section \<open>Dust sweep\<close>

lemma sweep_failed_transfer:
  assumes "SHADOWWIRE_MIN_TRANSFER \<le> getAccumulatedDust tok w"
    and "\<not> success (backend (length (transferCalls w)))"
  shows "sweepDustToTreasury env backend tok w =
     (Inl (SweepFailed (getAccumulatedDust tok w) (error (backend (length (transferCalls w))))),
      w\<lparr>transferCalls := transferCalls w @ [(treasuryWallet env, getAccumulatedDust tok w, tok)]\<rparr>)"
  using assms
  by (simp add: sweepDustToTreasury_def transferToTreasury_def transferFromEscrow_def Let_def)

lemma sweep_ok_transfer:
  assumes "SHADOWWIRE_MIN_TRANSFER \<le> getAccumulatedDust tok w"
    and "success (backend (length (transferCalls w)))"
  shows "sweepDustToTreasury env backend tok w =
     (Inr (getAccumulatedDust tok w, txSignature (backend (length (transferCalls w)))),
      resetDust tok (w\<lparr>transferCalls := transferCalls w @ [(treasuryWallet env, getAccumulatedDust tok w, tok)]\<rparr>))"
  using assms
  by (simp add: sweepDustToTreasury_def transferToTreasury_def transferFromEscrow_def Let_def)

lemma dusty_get: "getAccumulatedDust tok (dustyWorld tok amount) = orElse (Some amount) 0"
  by (simp add: getAccumulatedDust_def getDust_def dustyWorld_def emptyWorld_def)

text \<open>
  Claim C10. When the dust sweep issues its treasury transfer (the accumulated dust has
  reached the threshold) and that transfer fails, the call leaves every dust counter as
  it was: the state \<open>w'\<close> after the call differs from \<open>w\<close> only by the recorded
  transfer call. A later sweep whose transfer succeeds therefore transfers the full
  amount that had accumulated in \<open>w\<close>.
\<close>

theorem sweep_failure_keeps_dust:
  assumes "SHADOWWIRE_MIN_TRANSFER \<le> getAccumulatedDust tok w"
    and "\<not> success (backend (length (transferCalls w)))"
    and "w' = snd (sweepDustToTreasury env backend tok w)"
    and "success (backend' (length (transferCalls w')))"
  shows "dust w' = dust w
    \<and> getAccumulatedDust tok w' = getAccumulatedDust tok w
    \<and> fst (sweepDustToTreasury env backend' tok w')
        = Inr (getAccumulatedDust tok w, txSignature (backend' (length (transferCalls w'))))
    \<and> last (transferCalls (snd (sweepDustToTreasury env backend' tok w')))
        = (treasuryWallet env, getAccumulatedDust tok w, tok)"
proof -
  have w': "w' = w\<lparr>transferCalls :=
      transferCalls w @ [(treasuryWallet env, getAccumulatedDust tok w, tok)]\<rparr>"
    using assms(1,2,3) by (simp add: sweep_failed_transfer)
  have d: "getAccumulatedDust tok w' = getAccumulatedDust tok w"
    by (simp add: w' getAccumulatedDust_def getDust_def)
  have m: "SHADOWWIRE_MIN_TRANSFER \<le> getAccumulatedDust tok w'"
    using assms(1) d by simp
  show ?thesis
    using sweep_ok_transfer[of tok w' backend' env] m assms(4) d
    by (simp add: w' resetDust_def)
qed

theorem sweep_failure_keeps_dust_witness:
  "dust (snd (sweepDustToTreasury exampleEnv failingBackend ''SOL'' (dustyWorld ''SOL'' 150000000)))
      = dust (dustyWorld ''SOL'' 150000000)
   \<and> fst (sweepDustToTreasury exampleEnv okBackend ''SOL''
        (snd (sweepDustToTreasury exampleEnv failingBackend ''SOL'' (dustyWorld ''SOL'' 150000000))))
      = Inr (150000000, Some ''tx'')"
  using sweep_failure_keeps_dust[of "''SOL''" "dustyWorld ''SOL'' 150000000" failingBackend
      "snd (sweepDustToTreasury exampleEnv failingBackend ''SOL'' (dustyWorld ''SOL'' 150000000))"
      exampleEnv okBackend]
  by (simp add: dusty_get orElse_def SHADOWWIRE_MIN_TRANSFER_def failingBackend_def okBackend_def)

section \<open>Rounding to a double\<close>

lemma ilog2_bounds:
  assumes "0 < x"
  shows "2 powi (ilog2 x) \<le> x \<and> x < 2 powi (ilog2 x + 1)"
proof -
  obtain p q where pq: "quotient_of x = (p, q)" by (cases "quotient_of x")
  have q: "0 < q" using quotient_of_denom_pos[OF pq] .
  have x: "x = of_int p / of_int q" using quotient_of_div[OF pq] .
  have p: "0 < p" using assms q by (simp add: x zero_less_divide_iff)
  define bp where "bp = floorlog 2 (nat p)"
  define bq where "bq = floorlog 2 (nat q)"
  have bp1: "2 ^ (bp - 1) \<le> nat p" and bp2: "nat p < 2 ^ bp"
    using floorlog_bounds[of "nat p" 2] p by (simp_all add: bp_def)
  have bq1: "2 ^ (bq - 1) \<le> nat q" and bq2: "nat q < 2 ^ bq"
    using floorlog_bounds[of "nat q" 2] q by (simp_all add: bq_def)
  have "bp \<noteq> 0" using p by (simp add: bp_def floorlog_eq_zero_iff)
  then have bp0: "0 < bp" by simp
  have "bq \<noteq> 0" using q by (simp add: bq_def floorlog_eq_zero_iff)
  then have bq0: "0 < bq" by simp
  have P1: "(2::rat) ^ (bp - 1) \<le> of_int p"
  proof -
    have "(of_nat (2 ^ (bp - 1)) :: rat) \<le> of_nat (nat p)" using bp1 of_nat_le_iff by blast
    then show ?thesis using p by simp
  qed
  have P2: "of_int p < (2::rat) ^ bp"
  proof -
    have "(of_nat (nat p) :: rat) < of_nat (2 ^ bp)" using bp2 of_nat_less_iff by blast
    then show ?thesis using p by simp
  qed
  have Q1: "(2::rat) ^ (bq - 1) \<le> of_int q"
  proof -
    have "(of_nat (2 ^ (bq - 1)) :: rat) \<le> of_nat (nat q)" using bq1 of_nat_le_iff by blast
    then show ?thesis using q by simp
  qed
  have Q2: "of_int q < (2::rat) ^ bq"
  proof -
    have "(of_nat (nat q) :: rat) < of_nat (2 ^ bq)" using bq2 of_nat_less_iff by blast
    then show ?thesis using q by simp
  qed
  have qr: "(0::rat) < of_int q" and pr: "(0::rat) < of_int p" using p q by simp_all
  define d where "d = int bp - int bq"
  have lo: "2 powi (d - 1) < x"
  proof -
    have "d - 1 = int (bp - 1) - int bq" using bp0 by (simp add: d_def)
    then have "(2::rat) powi (d - 1) = 2 ^ (bp - 1) / 2 ^ bq"
      by (simp add: power_int_diff)
    also have "\<dots> \<le> of_int p / 2 ^ bq" using P1 by (simp add: divide_right_mono)
    also have "\<dots> < of_int p / of_int q"
      using Q2 qr pr by (simp add: divide_strict_left_mono)
    finally show ?thesis by (simp add: x)
  qed
  have hi: "x < 2 powi (d + 1)"
  proof -
    have "d + 1 = int bp - int (bq - 1)" using bq0 by (simp add: d_def)
    then have e: "(2::rat) powi (d + 1) = 2 ^ bp / 2 ^ (bq - 1)"
      by (simp add: power_int_diff)
    have "x \<le> of_int p / 2 ^ (bq - 1)"
      unfolding x by (rule divide_left_mono[OF Q1]) (use pr qr in simp_all)
    also have "\<dots> < 2 ^ bp / 2 ^ (bq - 1)" using P2 by (simp add: divide_strict_right_mono)
    finally show ?thesis by (simp add: e)
  qed
  have il: "ilog2 x = (if 2 powi d \<le> x then d else d - 1)"
    by (simp add: ilog2_def pq bp_def bq_def d_def Let_def)
  show ?thesis
  proof (cases "2 powi d \<le> x")
    case True
    then show ?thesis using hi by (simp add: il)
  next
    case False
    then show ?thesis using lo by (simp add: il)
  qed
qed

lemma ilog2_unique:
  assumes "0 < x" and "2 powi e \<le> x" and "x < 2 powi (e + 1)"
  shows "ilog2 x = e"
proof -
  let ?i = "ilog2 x"
  have b: "2 powi ?i \<le> x" "x < 2 powi (?i + 1)" using ilog2_bounds[OF assms(1)] by simp_all
  have "\<not> ?i < e"
  proof
    assume "?i < e"
    then have "?i + 1 \<le> e" by simp
    then have "(2::rat) powi (?i + 1) \<le> 2 powi e" by (intro power_int_increasing) simp_all
    then show False using b(2) assms(2) by linarith
  qed
  moreover have "\<not> e < ?i"
  proof
    assume "e < ?i"
    then have "e + 1 \<le> ?i" by simp
    then have "(2::rat) powi (e + 1) \<le> 2 powi ?i" by (intro power_int_increasing) simp_all
    then show False using b(1) assms(3) by linarith
  qed
  ultimately show ?thesis by linarith
qed

lemma roundHalfEven_of_int: "roundHalfEven (of_int n) = n"
  by (simp add: roundHalfEven_def)

lemma roundHalfEven_bound: "\<bar>of_int (roundHalfEven x) - x\<bar> \<le> 1 / 2"
proof -
  have "of_int \<lfloor>x\<rfloor> \<le> x" "x < of_int \<lfloor>x\<rfloor> + 1" by linarith+
  then show ?thesis by (auto simp: roundHalfEven_def Let_def)
qed

lemma toDouble_at:
  assumes "0 < x" and "2 powi e \<le> x" and "x < 2 powi (e + 1)" and "- 1022 \<le> e"
  shows "toDouble x = of_int (roundHalfEven (x / 2 powi (e - 52))) * 2 powi (e - 52)"
proof -
  have i: "ilog2 \<bar>x\<bar> = e" using assms by (simp add: ilog2_unique)
  have m: "max (e - 52) (- 1074) = e - 52" using assms(4) by linarith
  have "ulp x = 2 powi (e - 52)" unfolding ulp_def i m ..
  then show ?thesis using assms(1) by (simp add: toDouble_def)
qed

lemma toDouble_0: "toDouble 0 = 0"
  by (simp add: toDouble_def)

lemma toDouble_of_int:
  assumes "0 \<le> n" and "n < 2 ^ 53"
  shows "toDouble (of_int n) = of_int n"
proof (cases "n = 0")
  case True
  then show ?thesis by (simp add: toDouble_0)
next
  case False
  then have n: "0 < n" using assms(1) by simp
  let ?x = "of_int n :: rat"
  have x: "0 < ?x" using n by simp
  define e where "e = ilog2 ?x"
  have b: "2 powi e \<le> ?x" "?x < 2 powi (e + 1)"
    using ilog2_bounds[OF x] by (simp_all add: e_def)
  have e0: "0 \<le> e"
  proof (rule ccontr)
    assume "\<not> 0 \<le> e"
    then have "e + 1 \<le> 0" by simp
    then have "(2::rat) powi (e + 1) \<le> 2 powi 0" by (intro power_int_increasing) simp_all
    then have "?x < 1" using b(2) by simp
    then show False using n by simp
  qed
  have e52: "e \<le> 52"
  proof (rule ccontr)
    assume "\<not> e \<le> 52"
    then have "53 \<le> e" by simp
    then have "(2::rat) powi 53 \<le> 2 powi e" by (intro power_int_increasing) simp_all
    then have "(2::rat) ^ 53 \<le> ?x" using b(1) by simp
    moreover have "?x < 2 ^ 53" using assms(2) by (metis of_int_less_iff of_int_numeral of_int_power)
    ultimately show False by simp
  qed
  have u: "(2::rat) powi (e - 52) = 1 / 2 ^ nat (52 - e)"
  proof -
    have "(2::rat) powi (e - 52) = 2 powi (- (52 - e))" by simp
    also have "\<dots> = 1 / 2 powi (52 - e)" by (rule power_int_minus_divide)
    also have "(2::rat) powi (52 - e) = 2 ^ nat (52 - e)"
      using e52 by (simp add: power_int_nonneg_exp)
    finally show ?thesis .
  qed
  have "?x / 2 powi (e - 52) = of_int (n * 2 ^ nat (52 - e))"
    by (simp add: u)
  then have r: "roundHalfEven (?x / 2 powi (e - 52)) = n * 2 ^ nat (52 - e)"
    by (simp only: roundHalfEven_of_int)
  have "toDouble ?x = of_int (n * 2 ^ nat (52 - e)) * 2 powi (e - 52)"
    using toDouble_at[OF x b] e0 r by simp
  then show ?thesis by (simp add: u)
qed

lemma toDouble_error:
  assumes "0 < x" and "2 powi (- 1022) \<le> x" and "x < 2 powi E"
  shows "\<bar>toDouble x - x\<bar> \<le> 2 powi (E - 54)"
proof -
  define e where "e = ilog2 x"
  have b: "2 powi e \<le> x" "x < 2 powi (e + 1)"
    using ilog2_bounds[OF assms(1)] by (simp_all add: e_def)
  have elo: "- 1022 \<le> e"
  proof (rule ccontr)
    assume "\<not> - 1022 \<le> e"
    then have "e + 1 \<le> - 1022" by simp
    then have "(2::rat) powi (e + 1) \<le> 2 powi (- 1022)" by (intro power_int_increasing) simp_all
    then show False using b(2) assms(2) by linarith
  qed
  have ehi: "e + 1 \<le> E"
  proof (rule ccontr)
    assume "\<not> e + 1 \<le> E"
    then have "E \<le> e" by simp
    then have "(2::rat) powi E \<le> 2 powi e" by (intro power_int_increasing) simp_all
    then show False using b(1) assms(3) by linarith
  qed
  define u where "u = (2::rat) powi (e - 52)"
  have u0: "0 < u" by (simp add: u_def)
  define m where "m = roundHalfEven (x / u)"
  have t: "toDouble x = of_int m * u"
    using toDouble_at[OF assms(1) b elo] by (simp add: m_def u_def)
  have "\<bar>of_int m - x / u\<bar> \<le> 1 / 2" unfolding m_def by (rule roundHalfEven_bound)
  then have "\<bar>of_int m - x / u\<bar> * u \<le> 1 / 2 * u" using u0 by (simp add: mult_right_mono)
  moreover have "\<bar>of_int m - x / u\<bar> * u = \<bar>of_int m * u - x\<bar>"
  proof -
    have "(of_int m - x / u) * u = of_int m * u - x" using u0 by (simp add: field_simps)
    moreover have "\<bar>of_int m - x / u\<bar> * u = \<bar>(of_int m - x / u) * u\<bar>"
      using u0 by (simp add: abs_mult)
    ultimately show ?thesis by simp
  qed
  ultimately have "\<bar>toDouble x - x\<bar> \<le> u / 2" by (simp add: t)
  also have "u / 2 = 2 powi (e - 53)"
    by (simp add: u_def power_int_diff)
  also have "\<dots> \<le> 2 powi (E - 54)" using ehi by (intro power_int_increasing) simp_all
  finally show ?thesis .
qed

lemma floor_rat_numeral:
  "\<lfloor>(numeral a :: rat) / numeral b\<rfloor> = numeral a div numeral b"
  using floor_divide_of_int_eq[of "numeral a" "numeral b", where ?'a = rat] by simp

lemma fee_fraction: "js_div SHADOWWIRE_FEE_PERCENT 100 = 5764607523034235 / 2 ^ 60"
proof -
  have "toDouble (1 / 200) = of_int (roundHalfEven ((1 / 200) / 2 powi (- 8 - 52))) * 2 powi (- 8 - 52)"
    by (rule toDouble_at) simp_all
  also have "\<dots> = 5764607523034235 / 2 ^ 60"
    by (simp add: roundHalfEven_def Let_def floor_rat_numeral)
  finally show ?thesis by (simp add: js_div_def SHADOWWIRE_FEE_PERCENT_def)
qed

lemma depositFeeMultiplier_value: "depositFeeMultiplier = 8962163258467287 / 2 ^ 53"
proof -
  let ?x = "1 - 5764607523034235 / 2 ^ 60 :: rat"
  have "toDouble ?x = of_int (roundHalfEven (?x / 2 powi (- 1 - 52))) * 2 powi (- 1 - 52)"
    by (rule toDouble_at) simp_all
  also have "\<dots> = 8962163258467287 / 2 ^ 53"
    by (simp add: roundHalfEven_def Let_def floor_rat_numeral)
  finally show ?thesis by (simp add: depositFeeMultiplier_def js_sub_def fee_fraction)
qed

lemma roundHalfEven_near:
  assumes "\<bar>x - of_int K\<bar> < 1 / 2"
  shows "roundHalfEven x = K"
proof -
  have a: "x - of_int K < 1 / 2" "of_int K - x < 1 / 2" using assms by linarith+
  have "of_int (K - 1) \<le> x" "x < of_int (K + 1)" using a by simp_all
  then have "K - 1 \<le> \<lfloor>x\<rfloor>" "\<lfloor>x\<rfloor> < K + 1"
    by (simp_all only: le_floor_iff floor_less_iff)
  then have "\<lfloor>x\<rfloor> = K \<or> \<lfloor>x\<rfloor> = K - 1" by linarith
  then show ?thesis
  proof
    assume f: "\<lfloor>x\<rfloor> = K"
    have "x - of_int K < 1 / 2" using a by simp
    then show ?thesis by (simp add: roundHalfEven_def f Let_def)
  next
    assume f: "\<lfloor>x\<rfloor> = K - 1"
    have "x - of_int (K - 1) > 1 / 2" using a by simp
    then show ?thesis by (simp add: roundHalfEven_def f Let_def)
  qed
qed

lemma toDouble_snap:
  assumes "1 / 2 \<le> x" and "x < 2 ^ 52" and "\<bar>x - of_int k\<bar> * 2 ^ 54 < x"
  shows "toDouble x = of_int k"
proof -
  have x: "0 < x" using assms(1) by simp
  define e where "e = ilog2 x"
  have b: "2 powi e \<le> x" "x < 2 powi (e + 1)"
    using ilog2_bounds[OF x] by (simp_all add: e_def)
  have elo: "- 1 \<le> e"
  proof (rule ccontr)
    assume "\<not> - 1 \<le> e"
    then have "e + 1 \<le> - 1" by simp
    then have "(2::rat) powi (e + 1) \<le> 2 powi (- 1)" by (intro power_int_increasing) simp_all
    then show False using b(2) assms(1) by (simp add: power_int_minus_divide)
  qed
  have e51: "e \<le> 51"
  proof (rule ccontr)
    assume "\<not> e \<le> 51"
    then have "52 \<le> e" by simp
    then have "(2::rat) powi 52 \<le> 2 powi e" by (intro power_int_increasing) simp_all
    then show False using b(1) assms(2) by simp
  qed
  define n where "n = nat (52 - e)"
  have u: "(2::rat) powi (e - 52) = 1 / 2 ^ n"
  proof -
    have "(2::rat) powi (e - 52) = 2 powi (- (52 - e))" by simp
    also have "\<dots> = 1 / 2 powi (52 - e)" by (rule power_int_minus_divide)
    also have "(2::rat) powi (52 - e) = 2 ^ n"
      using e51 by (simp add: power_int_nonneg_exp n_def)
    finally show ?thesis .
  qed
  have e1: "(2::rat) powi (e + 1) = 2 ^ 53 / 2 ^ n"
  proof -
    have "e + 1 = 53 + (e - 52)" by simp
    then have "(2::rat) powi (e + 1) = 2 powi (53 + (e - 52))" by (simp only:)
    also have "\<dots> = 2 powi 53 * 2 powi (e - 52)" by (rule power_int_add) simp
    finally show ?thesis by (simp add: u)
  qed
  have "\<bar>x - of_int k\<bar> * 2 ^ 54 < 2 ^ 53 / 2 ^ n" using assms(3) b(2) e1 by linarith
  then have "\<bar>x - of_int k\<bar> * 2 ^ n * 2 < 1" by (simp add: field_simps)
  moreover have "x / 2 powi (e - 52) - of_int (k * 2 ^ n) = (x - of_int k) * 2 ^ n"
    by (simp add: u algebra_simps)
  ultimately have "\<bar>x / 2 powi (e - 52) - of_int (k * 2 ^ n)\<bar> < 1 / 2"
    by (simp add: abs_mult)
  then have "roundHalfEven (x / 2 powi (e - 52)) = k * 2 ^ n" by (rule roundHalfEven_near)
  moreover have "toDouble x = of_int (roundHalfEven (x / 2 powi (e - 52))) * 2 powi (e - 52)"
    using x b elo by (intro toDouble_at) simp_all
  ultimately show ?thesis by (simp add: u)
qed

lemma floor_toDouble_between:
  assumes "1 / 256 \<le> x" and "x < 2 ^ 46"
    and "of_int k + 1 / 256 \<le> x" and "x + 1 / 256 < of_int k + 1"
  shows "\<lfloor>toDouble x\<rfloor> = k"
proof -
  have x: "0 < x" using assms(1) by simp
  have "(2::rat) powi (- 1022) \<le> 2 powi (- 8)" by (intro power_int_increasing) simp_all
  then have lo: "2 powi (- 1022) \<le> x" using assms(1) by (simp add: power_int_minus_divide)
  have hi: "x < 2 powi 46" using assms(2) by simp
  have "\<bar>toDouble x - x\<bar> \<le> 2 powi (46 - 54)" by (rule toDouble_error[OF x lo hi])
  moreover have "(2::rat) powi (46 - 54) = 1 / 256" by (simp add: power_int_minus_divide)
  ultimately have "\<bar>toDouble x - x\<bar> \<le> 1 / 256" by (simp only:)
  then have "of_int k \<le> toDouble x" "toDouble x < of_int k + 1"
    using assms(3,4) by linarith+
  then show ?thesis by (simp add: floor_unique)
qed

lemma deposit_floor:
  assumes "0 \<le> S" and "S \<le> 70000000000000"
  shows "\<lfloor>toDouble (of_int S * depositFeeMultiplier)\<rfloor> = S * 199 div 200"
proof (cases "S = 0")
  case True
  then show ?thesis by (simp add: toDouble_0)
next
  case False
  then have S: "1 \<le> S" using assms(1) by simp
  define s :: rat where "s = of_int S"
  define x :: rat where "x = s * depositFeeMultiplier"
  define k where "k = S * 199 div 200"
  define j where "j = S * 199 mod 200"
  define d :: rat where "d = s / (25 * 2 ^ 53)"
  have Sr: "1 \<le> s" "s \<le> 70000000000000"
    using S assms(2) by (simp_all add: s_def)
  have kj: "S * 199 = k * 200 + j" by (simp add: k_def j_def)
  have "(of_int (S * 199) :: rat) = of_int (k * 200 + j)" by (simp only: kj)
  then have y: "s * 199 / 200 = of_int k + of_int j / 200" by (simp add: s_def)
  have d1: "s = d * 225179981368524800" by (simp add: d_def)
  have xd: "x = s * 199 / 200 - d"
    unfolding x_def depositFeeMultiplier_value d1 by simp
  have d0: "0 < d" "d \<le> 1 / 3000" using Sr unfolding d1 by linarith+
  have k0: "0 \<le> k" using S by (simp add: k_def)
  have j0: "0 \<le> j" "j < 200" by (simp_all add: j_def)
  have xlo: "1 / 2 \<le> x" using Sr d0 unfolding xd by linarith
  have xhi: "x < 2 ^ 46" using Sr d0 unfolding xd by simp
  show ?thesis
  proof (cases "j = 0")
    case True
    have "x - of_int k = - d" using y True by (simp add: xd)
    then have "\<bar>x - of_int k\<bar> = d" using d0 by simp
    moreover have "d * 2 ^ 54 < x" unfolding xd d1 using d0 by simp
    moreover have "x < 2 ^ 52" using xhi by simp
    ultimately have "toDouble x = of_int k" using xlo by (intro toDouble_snap) simp_all
    then show ?thesis by (simp add: x_def k_def s_def)
  next
    case False
    then have j1: "1 \<le> j" "j \<le> 199" using j0 by simp_all
    have jr: "(1::rat) \<le> of_int j" "(of_int j :: rat) \<le> 199"
      using j1 by simp_all
    have "of_int k + 1 / 256 \<le> x" using d0 jr y unfolding xd by linarith
    moreover have "x + 1 / 256 < of_int k + 1" using d0 jr y unfolding xd by linarith
    moreover have "1 / 256 \<le> x" using xlo by simp
    ultimately have "\<lfloor>toDouble x\<rfloor> = k" using xhi by (intro floor_toDouble_between) simp_all
    then show ?thesis by (simp add: x_def k_def s_def)
  qed
qed

lemma fee_floor:
  assumes "0 \<le> N" and "N \<le> 1400000000000000"
  shows "\<lfloor>toDouble (of_int N / 100)\<rfloor> = N div 100"
proof (cases "N = 0")
  case True
  then show ?thesis by (simp add: toDouble_0)
next
  case False
  then have N: "1 \<le> N" using assms(1) by simp
  define n :: rat where "n = of_int N"
  define x :: rat where "x = n / 100"
  define k where "k = N div 100"
  define j where "j = N mod 100"
  have nr: "1 \<le> n" "n \<le> 1400000000000000" using N assms(2) by (simp_all add: n_def)
  have kj: "N = k * 100 + j" by (simp add: k_def j_def)
  have "(of_int N :: rat) = of_int (k * 100 + j)" by (simp only: kj[symmetric])
  then have y: "x = of_int k + of_int j / 100" by (simp add: x_def n_def)
  have j0: "0 \<le> j" "j < 100" by (simp_all add: j_def)
  have k0: "0 \<le> k" "k < 2 ^ 53" using N assms(2) by (simp_all add: k_def)
  show ?thesis
  proof (cases "j = 0")
    case True
    then have "x = of_int k" using y by simp
    then have "toDouble x = of_int k" using k0 by (simp add: toDouble_of_int)
    then show ?thesis by (simp add: x_def k_def n_def)
  next
    case False
    then have j1: "1 \<le> j" "j \<le> 99" using j0 by simp_all
    have jr: "(1::rat) \<le> of_int j" "(of_int j :: rat) \<le> 99" using j1 by simp_all
    have kr: "(0::rat) \<le> of_int k" using k0 by simp
    have "of_int k + 1 / 256 \<le> x" using jr unfolding y by linarith
    moreover have "x + 1 / 256 < of_int k + 1" using jr unfolding y by linarith
    moreover have "1 / 256 \<le> x" using jr kr unfolding y by linarith
    moreover have "x < 2 ^ 46" using nr unfolding x_def by simp
    ultimately have "\<lfloor>toDouble x\<rfloor> = k" by (intro floor_toDouble_between) simp_all
    then show ?thesis by (simp add: x_def k_def n_def)
  qed
qed

lemma payout_values:
  assumes "0 \<le> S" and "S \<le> 70000000000000"
    and "stakeAmount (player1 duel) = S" and "houseFeePercent duel = of_nat f" and "f \<le> 10"
  defines "A \<equiv> S * 199 div 200"
  defines "P \<equiv> 2 * A"
  defines "H \<equiv> P * int f div 100"
  shows "actualDepositPerPlayer duel = of_int A"
    and "actualTotalPot duel = of_int P"
    and "houseFee duel = of_int H"
    and "winnerPayout duel = of_int (P - H)"
proof -
  have S53: "S < 2 ^ 53" using assms(2) by simp
  have sp: "stakePerPlayer duel = of_int S"
    using assms(1,3) S53 by (simp add: stakePerPlayer_def Number_of_bigint_def toDouble_of_int)
  show a: "actualDepositPerPlayer duel = of_int A"
    using deposit_floor[OF assms(1,2)]
    by (simp add: actualDepositPerPlayer_def sp js_mul_def Math_floor_def A_def)
  have A0: "0 \<le> A" "A \<le> 70000000000000" using assms(1,2) by (simp_all add: A_def)
  have P0: "0 \<le> P" "P \<le> 140000000000000" using A0 by (simp_all add: P_def)
  have "toDouble (of_int P) = of_int P" using P0 by (intro toDouble_of_int) simp_all
  then show p: "actualTotalPot duel = of_int P"
    by (simp add: actualTotalPot_def a js_mul_def P_def mult.commute)
  define N where "N = P * int f"
  have "N \<le> 140000000000000 * 10"
    unfolding N_def using P0 assms(5) by (intro mult_mono) simp_all
  then have N0: "0 \<le> N" "N \<le> 1400000000000000" using P0 by (simp_all add: N_def)
  have "toDouble (of_int N) = of_int N" using N0 by (intro toDouble_of_int) simp_all
  then have n: "js_mul (of_int P) (of_nat f) = of_int N"
    by (simp add: js_mul_def N_def)
  show h: "houseFee duel = of_int H"
    using fee_floor[OF N0]
    by (simp add: houseFee_def p assms(4) n js_div_def Math_floor_def H_def N_def)
  have "H \<le> N" using N0 by (simp add: H_def N_def[symmetric])
  have H0: "0 \<le> H" using N0 by (simp add: H_def N_def[symmetric])
  have "H \<le> P"
  proof -
    have "N \<le> P * 100" unfolding N_def using P0 assms(5) by (intro mult_left_mono) simp_all
    then show ?thesis unfolding H_def N_def[symmetric] by simp
  qed
  then have "0 \<le> P - H" "P - H < 2 ^ 53" using P0 H0 by simp_all
  then have "toDouble (of_int (P - H)) = of_int (P - H)" by (intro toDouble_of_int)
  then show "winnerPayout duel = of_int (P - H)"
    by (simp add: winnerPayout_def p h js_sub_def)
qed

lemma BigInt_of_int: "BigInt (of_int n) = Some n"
  by (simp add: BigInt_def)

lemma toDouble_numeral:
  "numeral n < (2::int) ^ 53 \<Longrightarrow> toDouble (numeral n) = numeral n"
  using toDouble_of_int[of "numeral n"] by simp

lemma toDouble_1: "toDouble 1 = 1"
  using toDouble_of_int[of 1] by simp

lemma Math_pow10_9: "Math_pow10 9 = 1000000000"
  by (simp add: Math_pow10_def toDouble_numeral)

lemma Math_pow10_6: "Math_pow10 6 = 1000000"
  by (simp add: Math_pow10_def toDouble_numeral)

section \<open>Store and payout loop\<close>

lemma getDuel_live:
  "duels w did = Some item \<Longrightarrow> \<not> expired now item \<Longrightarrow> getDuel now did w = (Some (data item), w)"
  by (simp add: getDuel_def)

lemma getDuel_expired:
  "duels w did = Some item \<Longrightarrow> expired now item \<Longrightarrow>
     getDuel now did w = (None, w\<lparr>duels := (duels w)(did := None), duelsExpired := duelsExpired w + 1\<rparr>)"
  by (simp add: getDuel_def)

lemma getDuel_absent:
  "duels w did = None \<Longrightarrow> getDuel now did w = (None, w)"
  by (simp add: getDuel_def)

lemma payoutLoop_fail3:
  assumes "\<not> success (backend (length (transferCalls w)))"
    and "\<not> success (backend (length (transferCalls w) + 1))"
    and "\<not> success (backend (length (transferCalls w) + 2))"
  shows "payoutLoop backend ww amt tok 1 r0 e0 w =
     (backend (length (transferCalls w) + 2),
      (if truthy (error (backend (length (transferCalls w) + 2)))
       then the (error (backend (length (transferCalls w) + 2))) else ''Unknown error''),
      w\<lparr>transferCalls := transferCalls w @ [(ww, amt, tok), (ww, amt, tok), (ww, amt, tok)]\<rparr>)"
  using assms
  by (simp add: payoutLoop.simps MAX_RETRIES_def transferFromEscrow_def)


lemma settle_exhausted:
  assumes "duels w did = Some item" and "\<not> expired (clk 0) item"
    and "status (data item) = ACTIVE \<or> status (data item) = PENDING_SETTLEMENT"
    and "verifyStealthId env winnerWallet (stealthId (player1 (data item)))
         \<or> verifyStealthId env winnerWallet (stealthId (player2 (data item)))"
    and "\<not> success (backend (length (transferCalls w)))"
    and "\<not> success (backend (length (transferCalls w) + 1))"
    and "\<not> success (backend (length (transferCalls w) + 2))"
  shows "settleDuel env clk backend commit did winnerWallet summary w =
    (Inl (FailedToPayWinner 3
       (if truthy (error (backend (length (transferCalls w) + 2)))
        then the (error (backend (length (transferCalls w) + 2))) else ''Unknown error'')),
     w\<lparr>duels := (duels w)(did \<mapsto> \<lparr>data = (data item)\<lparr>status := ACTIVE,
             winnerStealthId := Some (generateStealthId env winnerWallet), updatedAt := clk 3\<rparr>,
           storeExpiresAt = Some (clk 4 + SETTLEMENT_TTL)\<rparr>),
       duelsCreated := duelsCreated w + 2,
       pendingRecovery := insert did (pendingRecovery w),
       failedRecovery := insert did (failedRecovery w),
       transferCalls := transferCalls w @
         [(winnerWallet, winnerPayout (data item), token (data item)),
          (winnerWallet, winnerPayout (data item), token (data item)),
          (winnerWallet, winnerPayout (data item), token (data item))]\<rparr>)"
proof -
  let ?w1 = "addPendingRecovery did (setDuel (clk 2) did
      ((data item)\<lparr>status := PENDING_SETTLEMENT,
          winnerStealthId := Some (generateStealthId env winnerWallet), updatedAt := clk 1\<rparr>)
      SETTLEMENT_TTL w)"
  have tc: "transferCalls ?w1 = transferCalls w"
    by (simp add: addPendingRecovery_def setDuel_def)
  have loop: "payoutLoop backend winnerWallet (winnerPayout (data item)) (token (data item)) 1
       \<lparr>success = False, txSignature = None, error = None\<rparr> [] ?w1 =
     (backend (length (transferCalls w) + 2),
      (if truthy (error (backend (length (transferCalls w) + 2)))
       then the (error (backend (length (transferCalls w) + 2))) else ''Unknown error''),
      ?w1\<lparr>transferCalls := transferCalls w @
         [(winnerWallet, winnerPayout (data item), token (data item)),
          (winnerWallet, winnerPayout (data item), token (data item)),
          (winnerWallet, winnerPayout (data item), token (data item))]\<rparr>)"
    by (rule payoutLoop_fail3[of backend ?w1, unfolded tc, OF assms(5,6,7)])
  note loop' = loop[simplified]
  have s: "\<not> success (backend (Suc (Suc (length (transferCalls w)))))" using assms(7) by simp
  show ?thesis
    using assms(3,4)
    apply (simp add: settleDuel_def getDuel_live[OF assms(1,2)] Let_def loop' s MAX_RETRIES_def)
    apply (auto simp: addFailedRecovery_def addPendingRecovery_def setDuel_def
        intro!: World.equality DuelSession.equality)
    done
qed

section \<open>The example scenario\<close>

lemma trim_alice: "trim aliceWallet = aliceWallet"
  by (simp add: trim_def aliceWallet_def isSpace_def)

lemma trim_bob: "trim bobWallet = bobWallet"
  by (simp add: trim_def bobWallet_def isSpace_def)

lemma alice_neq_bob: "aliceWallet \<noteq> bobWallet" "bobWallet \<noteq> aliceWallet"
  by (simp_all add: aliceWallet_def bobWallet_def)

lemma wallets_nonempty: "aliceWallet \<noteq> []" "bobWallet \<noteq> []"
  by (simp_all add: aliceWallet_def bobWallet_def)

lemma sid_alice: "generateStealthId exampleEnv aliceWallet = ''hmac:'' @ aliceWallet"
  by (simp add: generateStealthId_def exampleEnv_def trim_alice)

lemma sid_bob: "generateStealthId exampleEnv bobWallet = ''hmac:'' @ bobWallet"
  by (simp add: generateStealthId_def exampleEnv_def trim_bob)

lemma create_eval:
  assumes "Math_floor (js_mul amount 1000000000) = of_int S" and "110000000 \<le> S"
  shows "createDuel exampleEnv (\<lambda>i. 1000) duelA (stakedParams amount) emptyWorld =
     (Inr (exampleDuel S PENDING_STAKES False False 1000),
      exampleWorld (exampleDuel S PENDING_STAKES False False 1000) 1801000 (Suc 0))"
proof -
  have "\<not> (of_int S :: rat) < 110000000" using assms(2) by simp
  then show ?thesis
    using assms(1)
    by (simp add: createDuel_def stakedParams_def Let_def TOKEN_DECIMALS_def TOKEN_MINIMUMS_def
      orElse_def Math_pow10_9 register_def sid_alice sid_bob BigInt_of_int setDuel_def
      exampleWorld_def exampleDuel_def emptyWorld_def mergeRules_def DEFAULT_RULES_def
      exampleEnv_def[THEN arg_cong, of HOUSE_FEE_PERCENT] exampleEnv_def[THEN arg_cong, of escrowTimeoutMs])
qed

lemma lock_alice_eval:
  "lockStakeWithProof exampleEnv (\<lambda>i. 2000) duelA aliceWallet ''tx_p1''
      (exampleWorld (exampleDuel S PENDING_STAKES False False 1000) 1801000 n) =
     (Inr (''tx_p1'', False),
      exampleWorld (exampleDuel S PENDING_STAKES True False 2000) 1801000 (Suc n))"
  by (simp add: lockStakeWithProof_def getDuel_def expired_def exampleWorld_def exampleDuel_def
      emptyWorld_def verifyStealthId_iff sid_alice recordLock_def setDuel_def Let_def
      exampleEnv_def[THEN arg_cong, of extractTx])

lemma lock_bob_eval:
  "lockStakeWithProof exampleEnv (\<lambda>i. 3000) duelA bobWallet ''tx_p2''
      (exampleWorld (exampleDuel S PENDING_STAKES True False 2000) 1801000 n) =
     (Inr (''tx_p2'', True),
      exampleWorld (exampleDuel S ACTIVE True True 3000) 1801000 (Suc n))"
  by (simp add: lockStakeWithProof_def getDuel_def expired_def exampleWorld_def exampleDuel_def
      emptyWorld_def verifyStealthId_iff sid_alice sid_bob alice_neq_bob recordLock_def setDuel_def Let_def
      exampleEnv_def[THEN arg_cong, of extractTx])

section \<open>Settlement: exhausted retries\<close>

lemma one_sol: "Math_floor (js_mul 1 1000000000) = of_int 1000000000"
  by (simp add: js_mul_def toDouble_numeral Math_floor_def)

lemma createdWorld_1:
  "createdWorld 1 = exampleWorld (exampleDuel 1000000000 PENDING_STAKES False False 1000) 1801000 (Suc 0)"
  using create_eval[OF one_sol] by (simp add: createdWorld_def)

lemma p1LockedWorld_1:
  "p1LockedWorld 1 = exampleWorld (exampleDuel 1000000000 PENDING_STAKES True False 2000) 1801000 (Suc (Suc 0))"
  by (simp add: p1LockedWorld_def createdWorld_1 lock_alice_eval)

lemma activeWorld_1:
  "activeWorld 1 = exampleWorld (exampleDuel 1000000000 ACTIVE True True 3000) 1801000 (Suc (Suc (Suc 0)))"
  by (simp add: activeWorld_def p1LockedWorld_1 lock_bob_eval)

lemma exampleWorld_duel:
  "duels (exampleWorld d t n) duelA = Some \<lparr>data = d, storeExpiresAt = Some t\<rparr>"
  by (simp add: exampleWorld_def)

lemma exampleWorld_fields:
  "pendingRecovery (exampleWorld d t n) = {}" "failedRecovery (exampleWorld d t n) = {}"
  "transferCalls (exampleWorld d t n) = []" "dust (exampleWorld d t n) = Map.empty"
  by (simp_all add: exampleWorld_def emptyWorld_def)

lemma exampleDuel_fields:
  "status (exampleDuel S st l1 l2 upd) = st"
  "stealthId (player1 (exampleDuel S st l1 l2 upd)) = ''hmac:'' @ aliceWallet"
  "stealthId (player2 (exampleDuel S st l1 l2 upd)) = ''hmac:'' @ bobWallet"
  "stakeLocked (player1 (exampleDuel S st l1 l2 upd)) = l1"
  "stakeLocked (player2 (exampleDuel S st l1 l2 upd)) = l2"
  "stakeAmount (player1 (exampleDuel S st l1 l2 upd)) = S"
  "stakeAmount (player2 (exampleDuel S st l1 l2 upd)) = S"
  "houseFeePercent (exampleDuel S st l1 l2 upd) = 2"
  "token (exampleDuel S st l1 l2 upd) = ''SOL''"
  "expiresAt (exampleDuel S st l1 l2 upd) = 1801000"
  by (simp_all add: exampleDuel_def)

text \<open>
  Claim C2 (amended). If during settle all three winner-payout attempts fail, settle
  returns the error "Failed to pay winner after 3 attempts", the duel's status is back to
  \<open>ACTIVE\<close>, its id has been added to \<open>failedRecovery\<close> and is still in
  \<open>pendingRecovery\<close>: the id is removed from the pending set only after a successful
  payout, so after the call both recovery sets contain it.
\<close>

theorem settle_retries_exhausted:
  assumes "duels w did = Some item" and "\<not> expired (clk 0) item"
    and "status (data item) = ACTIVE \<or> status (data item) = PENDING_SETTLEMENT"
    and "verifyStealthId env winnerWallet (stealthId (player1 (data item)))
         \<or> verifyStealthId env winnerWallet (stealthId (player2 (data item)))"
    and "\<not> success (backend (length (transferCalls w)))"
    and "\<not> success (backend (length (transferCalls w) + 1))"
    and "\<not> success (backend (length (transferCalls w) + 2))"
    and "w' = snd (settleDuel env clk backend commit did winnerWallet summary w)"
  shows "(\<exists>e. fst (settleDuel env clk backend commit did winnerWallet summary w)
            = Inl (FailedToPayWinner 3 e))
    \<and> (\<exists>item'. duels w' did = Some item' \<and> status (data item') = ACTIVE)
    \<and> did \<in> failedRecovery w' \<and> did \<in> pendingRecovery w'
    \<and> length (transferCalls w') = length (transferCalls w) + 3"
  unfolding assms(8)
  using settle_exhausted[of w did item clk env winnerWallet backend commit summary] assms(1-7)
  by simp

lemma example_settle_fails:
  "snd (settleDuel exampleEnv (\<lambda>i. 5000) failingBackend None duelA aliceWallet None (activeWorld 1))
     = w' \<Longrightarrow> duelA \<in> failedRecovery w' \<and> duelA \<in> pendingRecovery w'"
  using settle_exhausted[of "activeWorld 1" duelA
      "\<lparr>data = exampleDuel 1000000000 ACTIVE True True 3000, storeExpiresAt = Some 1801000\<rparr>"
      "\<lambda>i. 5000" exampleEnv aliceWallet failingBackend None None]
  by (auto simp: activeWorld_1 exampleWorld_duel exampleDuel_fields expired_def verifyStealthId_iff
      sid_alice failingBackend_def)

theorem settle_retries_exhausted_witness:
  "(\<exists>e. fst (settleDuel exampleEnv (\<lambda>i. 5000) failingBackend None duelA aliceWallet None (activeWorld 1))
        = Inl (FailedToPayWinner 3 e))
   \<and> duelA \<in> failedRecovery
        (snd (settleDuel exampleEnv (\<lambda>i. 5000) failingBackend None duelA aliceWallet None (activeWorld 1)))"
  using settle_retries_exhausted[of "activeWorld 1" duelA
      "\<lparr>data = exampleDuel 1000000000 ACTIVE True True 3000, storeExpiresAt = Some 1801000\<rparr>"
      "\<lambda>i. 5000" exampleEnv aliceWallet failingBackend
      "snd (settleDuel exampleEnv (\<lambda>i. 5000) failingBackend None duelA aliceWallet None (activeWorld 1))"
      None None]
  by (simp add: activeWorld_1 exampleWorld_duel exampleDuel_fields expired_def verifyStealthId_iff
      sid_alice failingBackend_def)

theorem settle_exhausted_not_disjoint:
  "pendingRecovery (activeWorld 1) \<inter> failedRecovery (activeWorld 1) = {}
   \<and> duelA \<in> pendingRecovery
        (snd (settleDuel exampleEnv (\<lambda>i. 5000) failingBackend None duelA aliceWallet None (activeWorld 1)))
      \<inter> failedRecovery
        (snd (settleDuel exampleEnv (\<lambda>i. 5000) failingBackend None duelA aliceWallet None (activeWorld 1)))"
  using example_settle_fails[OF refl] by (simp add: activeWorld_1 exampleWorld_fields)

section \<open>Creating a duel\<close>











section \<open>Dust threshold, refund failure and the lock deadline\<close>

text \<open>
  Claim C7. The dust sweep does not compare the accumulated dust with the minimum of the
  token: it compares with the constant 100000000 (0.1 SOL) whatever the token is. With
  5500000 units of USD1 dust, which is the USD1 minimum, it reports the dust as below the
  minimum and makes no transfer; with 100000000 units of RADR dust, far below the RADR
  minimum of 11000000000000, it issues the treasury transfer and resets the counter.
\<close>

theorem sweep_threshold_ignores_token:
  "TOKEN_MINIMUMS ''USD1'' = Some 5500000
   \<and> sweepDustToTreasury exampleEnv okBackend ''USD1'' (dustyWorld ''USD1'' 5500000)
       = (Inl (DustBelowMinimum 5500000), dustyWorld ''USD1'' 5500000)
   \<and> TOKEN_MINIMUMS ''RADR'' = Some 11000000000000
   \<and> fst (sweepDustToTreasury exampleEnv okBackend ''RADR'' (dustyWorld ''RADR'' 100000000))
       = Inr (100000000, Some ''tx'')
   \<and> transferCalls (snd (sweepDustToTreasury exampleEnv okBackend ''RADR''
         (dustyWorld ''RADR'' 100000000)))
       = [(treasuryWallet exampleEnv, 100000000, ''RADR'')]
   \<and> getAccumulatedDust ''RADR'' (snd (sweepDustToTreasury exampleEnv okBackend ''RADR''
         (dustyWorld ''RADR'' 100000000))) = 0"
  by (simp add: TOKEN_MINIMUMS_def sweepDustToTreasury_def dusty_get orElse_def
      SHADOWWIRE_MIN_TRANSFER_def transferToTreasury_def transferFromEscrow_def okBackend_def
      resetDust_def getAccumulatedDust_def getDust_def dustyWorld_def emptyWorld_def)

lemma refund_eval_p1_failed:
  "refundDuel (\<lambda>i. 5000) failingBackend duelA
      (exampleWorld (exampleDuel S PENDING_STAKES True False 2000) 1801000 n) = (r, w') \<Longrightarrow>
   r = Inr [] \<and> transferCalls w' = [(aliceWallet, Number_of_bigint S, ''SOL'')]
   \<and> map_option (\<lambda>item. status (data item)) (duels w' duelA) = Some REFUNDED
   \<and> pendingRecovery w' = {} \<and> failedRecovery w' = {}"
  by (auto simp: refundDuel_def getDuel_def expired_def exampleWorld_def exampleDuel_def
      emptyWorld_def refundPlayer_def resolve_def truthy_def wallets_nonempty alice_neq_bob
      transferFromEscrow_def failingBackend_def setDuel_def unregister_def Let_def)


text \<open>
  Claim C6. A refund whose transfer fails is not left where the recovery endpoints can
  find it. In the example Alice has locked her stake; the refund issues one transfer to
  her wallet, the backend fails it, and \<open>refundDuel\<close> still reports success with an
  empty list of transaction ids, sets the duel to \<open>REFUNDED\<close> and adds its id to neither
  recovery set.
\<close>

theorem refund_failure_not_recoverable:
  "stakeLocked (player1 (exampleDuel 1000000000 PENDING_STAKES True False 2000))
   \<and> \<not> success (failingBackend 0)
   \<and> fst (refundDuel (\<lambda>i. 5000) failingBackend duelA (p1LockedWorld 1)) = Inr []
   \<and> transferCalls (snd (refundDuel (\<lambda>i. 5000) failingBackend duelA (p1LockedWorld 1)))
       = [(aliceWallet, 1000000000, ''SOL'')]
   \<and> map_option (\<lambda>item. status (data item))
         (duels (snd (refundDuel (\<lambda>i. 5000) failingBackend duelA (p1LockedWorld 1))) duelA)
       = Some REFUNDED
   \<and> duelA \<notin> getPendingSettlements
         (snd (refundDuel (\<lambda>i. 5000) failingBackend duelA (p1LockedWorld 1)))
   \<and> duelA \<notin> getFailedDuels
         (snd (refundDuel (\<lambda>i. 5000) failingBackend duelA (p1LockedWorld 1)))"
  using refund_eval_p1_failed[OF surjective_pairing, of 1000000000 "Suc (Suc 0)"]
  by (simp add: p1LockedWorld_1 exampleDuel_fields failingBackend_def Number_of_bigint_def
      toDouble_numeral getPendingSettlements_def getPendingRecovery_def getFailedDuels_def
      getFailedRecovery_def)

lemma lock_evicted_at_deadline:
  assumes "duels w did = Some item" and "storeExpiresAt item = Some t" and "t \<le> clk 0"
  shows "lockStakeWithProof env clk did playerWallet paymentProof w =
     (Inl DuelNotFound, w\<lparr>duels := (duels w)(did := None), duelsExpired := duelsExpired w + 1\<rparr>)"
  using assms by (simp add: lockStakeWithProof_def getDuel_def expired_def)

lemma lock_rejected_after_deadline:
  assumes "duels w did = Some item" and "expiresAt (data item) < clk 0" and "clk 0 \<le> clk 1"
  shows "isl (fst (lockStakeWithProof env clk did playerWallet paymentProof w))"
  using assms by (simp add: lockStakeWithProof_def getDuel_def)

text \<open>
  Claim C9. A duel created at time 1000 with the default timeout has
  \<open>expiresAt = 1801000\<close>, and the store keeps its record until the same instant. The
  store drops a record once \<open>storeExpiresAt \<le> now\<close>, so a lock request that arrives at
  exactly \<open>now = expiresAt\<close> finds no duel and is rejected, although the check of the
  lock itself (\<open>now > expiresAt\<close>) would let it pass. One millisecond earlier the lock is
  accepted; one millisecond after the deadline it is rejected.
\<close>

theorem lock_at_deadline_not_found:
  "map_option (\<lambda>item. (status (data item), stakeLocked (player1 (data item)),
        expiresAt (data item), storeExpiresAt item)) (duels (createdWorld 1) duelA)
     = Some (PENDING_STAKES, False, 1801000, Some 1801000)
   \<and> fst (lockStakeWithProof exampleEnv (\<lambda>i. 1801000) duelA aliceWallet ''tx_p1'' (createdWorld 1))
     = Inl DuelNotFound
   \<and> duels (snd (lockStakeWithProof exampleEnv (\<lambda>i. 1801000) duelA aliceWallet ''tx_p1''
        (createdWorld 1))) duelA = None
   \<and> isl (fst (lockStakeWithProof exampleEnv (\<lambda>i. 1801001) duelA aliceWallet ''tx_p1''
        (createdWorld 1)))
   \<and> fst (lockStakeWithProof exampleEnv (\<lambda>i. 1800999) duelA aliceWallet ''tx_p1'' (createdWorld 1))
     = Inr (''tx_p1'', False)"
proof -
  let ?item = "\<lparr>data = exampleDuel 1000000000 PENDING_STAKES False False 1000,
                 storeExpiresAt = Some 1801000\<rparr>"
  have d: "duels (createdWorld 1) duelA = Some ?item"
    by (simp add: createdWorld_1 exampleWorld_duel)
  have a: "lockStakeWithProof exampleEnv (\<lambda>i. 1801000) duelA aliceWallet ''tx_p1'' (createdWorld 1)
      = (Inl DuelNotFound, (createdWorld 1)\<lparr>duels := (duels (createdWorld 1))(duelA := None),
            duelsExpired := duelsExpired (createdWorld 1) + 1\<rparr>)"
    by (rule lock_evicted_at_deadline[OF d, of 1801000]) simp_all
  have b: "isl (fst (lockStakeWithProof exampleEnv (\<lambda>i. 1801001) duelA aliceWallet ''tx_p1''
        (createdWorld 1)))"
    by (rule lock_rejected_after_deadline[OF d]) (simp_all add: exampleDuel_fields)
  have c: "fst (lockStakeWithProof exampleEnv (\<lambda>i. 1800999) duelA aliceWallet ''tx_p1'' (createdWorld 1))
     = Inr (''tx_p1'', False)"
    by (simp add: createdWorld_1 lockStakeWithProof_def getDuel_def expired_def exampleWorld_def
        exampleDuel_def emptyWorld_def verifyStealthId_iff sid_alice Let_def
        exampleEnv_def[THEN arg_cong, of extractTx])
  show ?thesis using b c by (simp add: a d exampleDuel_fields)
qed

section \<open>Payout amounts of a settlement\<close>

lemma settle_returns_amounts:
  assumes "duels w did = Some item"
    and "fst (settleDuel env clk backend commit did winnerWallet summary w) = Inr r"
  shows "BigInt (winnerPayout (data item)) = Some (winnerPayoutLamports r)
       \<and> BigInt (houseFee (data item)) = Some (houseFeeLamports r)"
proof (cases "expired (clk 0) item")
  case True
  then show ?thesis using assms by (simp add: settleDuel_def getDuel_expired)
next
  case False
  show ?thesis
    using assms(2)
    by (auto simp: settleDuel_def getDuel_live[OF assms(1) False] Let_def
        split: if_splits prod.splits option.splits)
qed

lemma big_stake_double: "toDouble (70722355957601 / 1000000000) = 4860003294943473 / 2 ^ 36"
proof -
  have "toDouble (70722355957601 / 1000000000) =
      of_int (roundHalfEven ((70722355957601 / 1000000000) / 2 powi (16 - 52))) * 2 powi (16 - 52)"
    by (rule toDouble_at) simp_all
  also have "\<dots> = 4860003294943473 / 2 ^ 36"
    by (simp add: roundHalfEven_def Let_def floor_rat_numeral)
  finally show ?thesis .
qed

lemma big_stake_units:
  "Math_floor (js_mul (toDouble (70722355957601 / 1000000000)) 1000000000) = of_int 70722355957601"
proof -
  let ?x = "4860003294943473 / 2 ^ 36 * 1000000000 :: rat"
  have "toDouble ?x = of_int (roundHalfEven (?x / 2 powi (46 - 52))) * 2 powi (46 - 52)"
    by (rule toDouble_at) simp_all
  also have "\<dots> = 70722355957601"
    by (simp add: roundHalfEven_def Let_def floor_rat_numeral)
  finally show ?thesis by (simp add: js_mul_def big_stake_double Math_floor_def)
qed

lemma big_stake_payout:
  assumes "d = exampleDuel 70722355957601 st l1 l2 upd"
  shows "actualDepositPerPlayer d = 70368744177813"
    and "actualTotalPot d = 140737488355626"
    and "houseFee d = of_int 2814749767112"
    and "winnerPayout d = of_int 137922738588514"
proof -
  let ?x = "70722355957601 * (8962163258467287 / 2 ^ 53) :: rat"
  have "toDouble ?x = of_int (roundHalfEven (?x / 2 powi (46 - 52))) * 2 powi (46 - 52)"
    by (rule toDouble_at) simp_all
  also have "\<dots> = 70368744177813"
    by (simp add: roundHalfEven_def Let_def floor_rat_numeral)
  finally have x: "toDouble ?x = 70368744177813" .
  note x' = x[simplified]
  show a: "actualDepositPerPlayer d = 70368744177813"
    by (simp add: actualDepositPerPlayer_def stakePerPlayer_def assms exampleDuel_fields
        Number_of_bigint_def toDouble_numeral js_mul_def depositFeeMultiplier_value x' Math_floor_def)
  show p: "actualTotalPot d = 140737488355626"
    by (simp add: actualTotalPot_def a js_mul_def toDouble_numeral)
  let ?y = "70368744177813 / 25 :: rat"
  have "toDouble ?y = of_int (roundHalfEven (?y / 2 powi (41 - 52))) * 2 powi (41 - 52)"
    by (rule toDouble_at) simp_all
  also have "\<dots> = 5764607523046441 / 2048"
    by (simp add: roundHalfEven_def Let_def floor_rat_numeral)
  finally have y0: "toDouble ?y = 5764607523046441 / 2048" .
  note y = y0
  have f: "houseFeePercent d = 2" by (simp add: assms exampleDuel_fields)
  show h: "houseFee d = of_int 2814749767112"
    by (simp add: houseFee_def p f js_mul_def js_div_def toDouble_numeral y
        Math_floor_def floor_rat_numeral)
  show "winnerPayout d = of_int 137922738588514"
    by (simp add: winnerPayout_def p h js_sub_def toDouble_numeral)
qed

lemma settle_ok_eval:
  assumes "d = exampleDuel S ACTIVE True True 3000"
    and "winnerPayout d = of_int W" and "houseFee d = of_int H" and "0 < H" and "H < 2 ^ 53"
    and "w' = snd (settleDuel exampleEnv (\<lambda>i. 5000) okBackend None duelA aliceWallet None
                    (exampleWorld d 1801000 n))"
  shows "fst (settleDuel exampleEnv (\<lambda>i. 5000) okBackend None duelA aliceWallet None
               (exampleWorld d 1801000 n))
          = Inr \<lparr>winnerTxSignature = Some ''tx'',
                 treasuryTxSignature = (if 110000000 \<le> H then Some ''tx'' else None),
                 winnerPayoutLamports = W, houseFeeLamports = H,
                 commitmentHash = None, commitmentTxSignature = None\<rparr>"
    and "\<exists>item. duels w' duelA = Some item \<and> status (data item) = SETTLED
           \<and> storeExpiresAt item = Some 86405000
           \<and> player1 (data item) = player1 d \<and> player2 (data item) = player2 d"
    and "sessionMap w' = Map.empty"
    and "pendingRecovery w' = {}" and "failedRecovery w' = {}"
    and "dust w' = (if 110000000 \<le> H then Map.empty else [''SOL'' \<mapsto> of_int H])"
    and "transferCalls w' = (aliceWallet, of_int W, ''SOL'')
           # (if 110000000 \<le> H then [(treasuryWallet exampleEnv, of_int H, ''SOL'')] else [])"
proof -
  have H: "toDouble (of_int H) = of_int H" using assms(4,5) by (intro toDouble_of_int) simp_all
  have Hr: "(0::rat) < of_int H" using assms(4) by simp
  have c: "(110000000 \<le> (of_int H :: rat)) = (110000000 \<le> H)"
    by (metis of_int_le_iff of_int_numeral)
  note defs = settleDuel_def getDuel_def expired_def exampleWorld_def emptyWorld_def
      verifyStealthId_iff sid_alice exampleDuel_fields assms(2,3) Let_def
      addPendingRecovery_def removePendingRecovery_def setDuel_def SETTLEMENT_TTL_def
      payoutLoop.simps[of _ _ _ _ "Suc 0"] MAX_RETRIES_def transferFromEscrow_def okBackend_def
      payTreasury_def TOKEN_MINIMUMS_def orElse_def transferToTreasury_def
      accumulateDust_def js_add_def H truthy_def unregister_def BigInt_of_int c alice_neq_bob
      exampleEnv_def[THEN arg_cong, of treasuryWallet]
  have e: "status (exampleDuel S ACTIVE True True 3000) = ACTIVE" by (simp add: exampleDuel_fields)
  show "fst (settleDuel exampleEnv (\<lambda>i. 5000) okBackend None duelA aliceWallet None
               (exampleWorld d 1801000 n))
          = Inr \<lparr>winnerTxSignature = Some ''tx'',
                 treasuryTxSignature = (if 110000000 \<le> H then Some ''tx'' else None),
                 winnerPayoutLamports = W, houseFeeLamports = H,
                 commitmentHash = None, commitmentTxSignature = None\<rparr>"
    using Hr by (simp add: defs assms(1)[symmetric], (auto simp: assms(1) exampleDuel_fields)?)
  show "\<exists>item. duels w' duelA = Some item \<and> status (data item) = SETTLED
           \<and> storeExpiresAt item = Some 86405000
           \<and> player1 (data item) = player1 d \<and> player2 (data item) = player2 d"
    using Hr unfolding assms(6)
    by (simp add: defs assms(1)[symmetric], (auto simp: assms(1) exampleDuel_fields)?)
  show "sessionMap w' = Map.empty"
    using Hr unfolding assms(6)
    by (simp add: defs assms(1)[symmetric], (auto simp: assms(1) exampleDuel_fields fun_eq_iff)?)
  show "pendingRecovery w' = {}"
    using Hr unfolding assms(6)
    by (simp add: defs assms(1)[symmetric], (auto simp: assms(1) exampleDuel_fields)?)
  show "failedRecovery w' = {}"
    using Hr unfolding assms(6)
    by (simp add: defs assms(1)[symmetric], (auto simp: assms(1) exampleDuel_fields)?)
  show "dust w' = (if 110000000 \<le> H then Map.empty else [''SOL'' \<mapsto> of_int H])"
    using Hr unfolding assms(6)
    by (simp add: defs assms(1)[symmetric], (auto simp: assms(1) exampleDuel_fields)?)
  show "transferCalls w' = (aliceWallet, of_int W, ''SOL'')
           # (if 110000000 \<le> H then [(treasuryWallet exampleEnv, of_int H, ''SOL'')] else [])"
    using Hr unfolding assms(6)
    by (simp add: defs assms(1)[symmetric], (auto simp: assms(1) exampleDuel_fields exampleEnv_def)?)
qed

lemma exact_deposit: "\<lfloor>(of_int S :: rat) * (1 - (1 / 2) / 100)\<rfloor> = S * 199 div 200"
proof -
  have "(of_int S :: rat) * (1 - (1 / 2) / 100) = of_int (S * 199) / of_int 200" by simp
  then show ?thesis by (simp only: floor_divide_of_int_eq)
qed

lemma exact_fee: "\<lfloor>(of_int P :: rat) * of_nat f / 100\<rfloor> = P * int f div 100"
proof -
  have "(of_int P :: rat) * of_nat f / 100 = of_int (P * int f) / of_int 100" by simp
  then show ?thesis by (simp only: floor_divide_of_int_eq)
qed

text \<open>
  Claim C1 (amended). For every settle call on a duel with per-player stake
  \<open>0 \<le> S \<le> 70000000000000\<close> smallest units and an integer house fee percent
  \<open>f \<le> 10\<close>, the amounts that \<open>settleDuel\<close> computes are
  \<open>A = floor(S \<times> (1 - 0.5/100))\<close>, \<open>P = 2 \<times> A\<close>, \<open>H = floor(P \<times> f / 100)\<close> and
  \<open>P - H\<close>, and a successful settle returns \<open>winnerPayoutLamports = P - H\<close> and
  \<open>houseFeeLamports = H\<close>; for \<open>S = 100000000\<close> and \<open>f = 2\<close> these are 195020000 and
  3980000. The bound on \<open>S\<close> is needed because the amounts are computed in double
  precision.
\<close>

theorem settle_payout_math:
  assumes "duels w did = Some item"
    and "stakeAmount (player1 (data item)) = S" and "0 \<le> S" and "S \<le> 70000000000000"
    and "houseFeePercent (data item) = of_nat f" and "f \<le> 10"
    and "A = \<lfloor>(of_int S :: rat) * (1 - (1 / 2) / 100)\<rfloor>"
    and "P = 2 * A"
    and "H = \<lfloor>(of_int P :: rat) * of_nat f / 100\<rfloor>"
  shows "actualDepositPerPlayer (data item) = of_int A
    \<and> actualTotalPot (data item) = of_int P
    \<and> houseFee (data item) = of_int H
    \<and> winnerPayout (data item) = of_int (P - H)
    \<and> (fst (settleDuel env clk backend commit did winnerWallet summary w) = Inr r
          \<longrightarrow> winnerPayoutLamports r = P - H \<and> houseFeeLamports r = H)
    \<and> (S = 100000000 \<and> f = 2 \<longrightarrow> P - H = 195020000 \<and> H = 3980000)"
proof -
  have A: "A = S * 199 div 200" by (simp only: assms(7) exact_deposit)
  have H: "H = 2 * (S * 199 div 200) * int f div 100"
    by (simp only: assms(9) exact_fee assms(8) A)
  note v = payout_values[OF assms(3,4,2,5,6), folded A[unfolded assms(8)]]
  have v1: "actualDepositPerPlayer (data item) = of_int A"
    and v2: "actualTotalPot (data item) = of_int P"
    and v3: "houseFee (data item) = of_int H"
    and v4: "winnerPayout (data item) = of_int (P - H)"
    using payout_values[OF assms(3,4,2,5,6)] by (simp_all only: A H assms(8))
  have r: "winnerPayoutLamports r = P - H \<and> houseFeeLamports r = H"
    if "fst (settleDuel env clk backend commit did winnerWallet summary w) = Inr r"
    using settle_returns_amounts[OF assms(1) that] by (simp only: v3 v4 BigInt_of_int) simp
  have i: "P - H = 195020000 \<and> H = 3980000" if "S = 100000000 \<and> f = 2"
    using that by (simp add: H A assms(8))
  show ?thesis using v1 v2 v3 v4 r i by blast
qed

theorem settle_payout_math_witness:
  "map_sum id (\<lambda>r. (winnerPayoutLamports r, houseFeeLamports r))
     (fst (settleDuel exampleEnv (\<lambda>i. 5000) okBackend None duelA aliceWallet None
        (exampleWorld (exampleDuel 100000000 ACTIVE True True 3000) 1801000 3)))
   = Inr (195020000, 3980000)"
proof -
  let ?d = "exampleDuel 100000000 ACTIVE True True 3000"
  let ?w = "exampleWorld ?d 1801000 3"
  have m: "houseFee ?d = of_int 3980000 \<and> winnerPayout ?d = of_int 195020000"
    using settle_payout_math[where w = ?w and did = duelA
          and item = "\<lparr>data = ?d, storeExpiresAt = Some 1801000\<rparr>"
          and S = 100000000 and f = 2 and A = 99500000 and P = 199000000 and H = 3980000]
    by (simp add: exampleWorld_duel exampleDuel_fields exact_deposit exact_fee)
  have "fst (settleDuel exampleEnv (\<lambda>i. 5000) okBackend None duelA aliceWallet None ?w)
          = Inr \<lparr>winnerTxSignature = Some ''tx'',
                 treasuryTxSignature = (if (110000000::int) \<le> 3980000 then Some ''tx'' else None),
                 winnerPayoutLamports = 195020000, houseFeeLamports = 3980000,
                 commitmentHash = None, commitmentTxSignature = None\<rparr>"
    by (rule settle_ok_eval(1)[OF refl _ _ _ _ refl]) (use m in simp_all)
  then show ?thesis by simp
qed

lemma big_created:
  "activeWorld (toDouble (70722355957601 / 1000000000))
     = exampleWorld (exampleDuel 70722355957601 ACTIVE True True 3000) 1801000 (Suc (Suc (Suc 0)))"
  using create_eval[OF big_stake_units]
  by (simp add: activeWorld_def p1LockedWorld_def createdWorld_def lock_alice_eval lock_bob_eval)

theorem settle_large_stake_rounds_up:
  "map_option (\<lambda>item. (stakeAmount (player1 (data item)), houseFeePercent (data item)))
      (duels (activeWorld (toDouble (70722355957601 / 1000000000))) duelA)
     = Some (70722355957601, 2)
   \<and> map_sum id (\<lambda>r. (winnerPayoutLamports r, houseFeeLamports r))
       (fst (settleDuel exampleEnv (\<lambda>i. 5000) okBackend None duelA aliceWallet None
          (activeWorld (toDouble (70722355957601 / 1000000000)))))
     = Inr (137922738588514, 2814749767112)
   \<and> actualDepositPerPlayer (exampleDuel 70722355957601 ACTIVE True True 3000) = 70368744177813
   \<and> \<lfloor>(70722355957601 :: rat) * (1 - (1 / 2) / 100)\<rfloor> = 70368744177812
   \<and> 2 * 70368744177812 - \<lfloor>(2 * 70368744177812 :: rat) * 2 / 100\<rfloor> = (137922738588512 :: int)"
proof -
  let ?d = "exampleDuel 70722355957601 ACTIVE True True 3000"
  note p = big_stake_payout[OF refl, of ACTIVE True True 3000]
  have "fst (settleDuel exampleEnv (\<lambda>i. 5000) okBackend None duelA aliceWallet None
               (exampleWorld ?d 1801000 (Suc (Suc (Suc 0)))))
          = Inr \<lparr>winnerTxSignature = Some ''tx'',
                 treasuryTxSignature = (if (110000000::int) \<le> 2814749767112 then Some ''tx'' else None),
                 winnerPayoutLamports = 137922738588514, houseFeeLamports = 2814749767112,
                 commitmentHash = None, commitmentTxSignature = None\<rparr>"
    by (rule settle_ok_eval(1)[OF refl p(4) p(3) _ _ refl]) simp_all
  moreover have "\<lfloor>(70722355957601 :: rat) * (1 - (1 / 2) / 100)\<rfloor> = 70368744177812"
    using exact_deposit[of 70722355957601] by simp
  moreover have "2 * 70368744177812 - \<lfloor>(2 * 70368744177812 :: rat) * 2 / 100\<rfloor> = (137922738588512 :: int)"
    using exact_fee[of "2 * 70368744177812" 2] by simp
  ultimately show ?thesis
    by (simp add: big_created exampleWorld_duel exampleDuel_fields p(1))
qed

section \<open>Effect of each operation on the stored duels\<close>



lemma getDuel_sessionMap:
  "getDuel now did w = (r, w0) \<Longrightarrow> sessionMap w0 = sessionMap w"
  by (auto simp: getDuel_def split: option.splits if_splits)











section \<open>Status and stealth-id invariants\<close>







lemma emergency_keeps_sessionMap:
  "sessionMap (snd (emergencyRefund clk backend did p1Wallet p2Wallet stake tok w)) = sessionMap w"
  by (auto simp: emergencyRefund_def emergencyTransfer_def transferFromEscrow_def getDuel_def
      removePendingRecovery_def removeFailedRecovery_def setDuel_def Let_def
      split: option.splits)












end
